theory Spec2Isabelle
  imports Complex_Main "HOL-Library.Sublist"
begin

section \<open>Errors and results\<close>

text \<open>
  Every \<^verbatim>\<open>raise\<close>, failed \<^verbatim>\<open>assert\<close> and library exception of the Python source is a
  value: a function that can fail returns \<open>error + 'a\<close>, with \<open>Inl\<close> for the exception.
\<close>

datatype error =
    ValueError string
  | AssertionError
  | ZeroDivisionError
  | RuntimeError
  | IndexError
  | TypeError
  | AttributeError

definition bindE :: "error + 'a \<Rightarrow> ('a \<Rightarrow> error + 'b) \<Rightarrow> error + 'b" where
  "bindE m f = (case m of Inl e \<Rightarrow> Inl e | Inr a \<Rightarrow> f a)"

definition py_floordiv :: "int \<Rightarrow> int \<Rightarrow> error + int" where
  \<comment> \<open>Python's \<^verbatim>\<open>a // b\<close> on integers: floor division, ZeroDivisionError on \<open>b = 0\<close>.\<close>
  "py_floordiv a b = (if b = 0 then Inl ZeroDivisionError else Inr (a div b))"

section \<open>Tensors\<close>

text \<open>
  A tensor is its shape and its entries, read at a multi-index. Entries outside the shape
  carry no meaning; two tensors are the same tensor when they agree on shape and on every
  index inside it (\<open>tensor_eq\<close>).
\<close>

datatype 'a tensor = Tensor (shape: "nat list") (entry: "nat list \<Rightarrow> 'a")

definition valid_index :: "nat list \<Rightarrow> nat list \<Rightarrow> bool" where
  "valid_index s idx = (length idx = length s \<and> list_all2 (<) idx s)"

definition tensor_eq :: "'a tensor \<Rightarrow> 'a tensor \<Rightarrow> bool" where
  "tensor_eq a b = (shape a = shape b \<and> (\<forall>idx. valid_index (shape a) idx \<longrightarrow> entry a idx = entry b idx))"

section \<open>Configuration and module construction\<close>

text \<open>
  The fields of \<^verbatim>\<open>Qwen3Config\<close> that the source reads. \<^verbatim>\<open>head_dim\<close> and
  \<^verbatim>\<open>target_hidden_size\<close> are optional attributes (\<^verbatim>\<open>getattr\<close> with a default,
  \<^verbatim>\<open>hasattr\<close>), so they are options.
\<close>

record Qwen3Config =
  hidden_size :: int
  intermediate_size :: int
  num_attention_heads :: int
  num_key_value_heads :: int
  head_dim :: "int option"
  max_position_embeddings :: int
  rms_norm_eps :: real
  vocab_size :: int
  draft_vocab_size :: int
  target_hidden_size :: "int option"
  hidden_act :: string
  pad_token_id :: "int option"

text \<open>
  \<^verbatim>\<open>nn.Linear(in_features, out_features, bias=False)\<close>: a weight matrix read as
  \<open>weight out in\<close>. The initial weights are whatever the framework draws; they are a
  parameter of the constructor here. A negative size is refused by the framework.
\<close>

record linear =
  in_features :: nat
  out_features :: nat
  weight :: "nat \<Rightarrow> nat \<Rightarrow> real"

definition nn_Linear :: "(nat \<Rightarrow> nat \<Rightarrow> real) \<Rightarrow> int \<Rightarrow> int \<Rightarrow> error + linear" where
  "nn_Linear w i out =
     (if i < 0 \<or> out < 0 then Inl RuntimeError
      else Inr \<lparr>in_features = nat i, out_features = nat out, weight = w\<rparr>)"

definition linear_forward :: "linear \<Rightarrow> real tensor \<Rightarrow> error + real tensor" where
  \<comment> \<open>\<^verbatim>\<open>F.linear(x, W)\<close>: the last axis of \<open>x\<close> must be \<open>in_features\<close>.\<close>
  "linear_forward L x =
     (if shape x = [] \<or> last (shape x) \<noteq> in_features L then Inl RuntimeError
      else Inr (Tensor (butlast (shape x) @ [out_features L])
             (\<lambda>idx. \<Sum>j\<leftarrow>[0..<in_features L]. entry x (butlast idx @ [j]) * weight L (last idx) j)))"

text \<open>
  What the framework brings to the construction of a draft model: the weights that the
  modules start from, and \<open>functional_attrs\<close>, which says which names are attributes of
  \<^verbatim>\<open>torch.nn.functional\<close>.
\<close>

record init_weights =
  w_q :: "nat \<Rightarrow> nat \<Rightarrow> real"
  w_k :: "nat \<Rightarrow> nat \<Rightarrow> real"
  w_v :: "nat \<Rightarrow> nat \<Rightarrow> real"
  w_o :: "nat \<Rightarrow> nat \<Rightarrow> real"
  w_fc :: "nat \<Rightarrow> nat \<Rightarrow> real"
  w_lm_head :: "nat \<Rightarrow> nat \<Rightarrow> real"
  w_gate :: "nat \<Rightarrow> nat \<Rightarrow> real"
  w_up :: "nat \<Rightarrow> nat \<Rightarrow> real"
  w_down :: "nat \<Rightarrow> nat \<Rightarrow> real"
  w_embed :: "nat \<Rightarrow> nat \<Rightarrow> real"
  functional_attrs :: "string \<Rightarrow> bool"

text \<open>
  \<^verbatim>\<open>Qwen3RMSNorm.__init__\<close>: the weight starts as ones; \<^verbatim>\<open>torch.ones\<close> refuses a
  negative size.
\<close>

record rmsnorm =
  norm_weight :: "nat \<Rightarrow> real"
  norm_size :: nat
  variance_epsilon :: real

definition Qwen3RMSNorm_init :: "int \<Rightarrow> real \<Rightarrow> error + rmsnorm" where
  "Qwen3RMSNorm_init n eps =
     (if n < 0 then Inl RuntimeError
      else Inr \<lparr>norm_weight = (\<lambda>_. 1), norm_size = nat n, variance_epsilon = eps\<rparr>)"

text \<open>
  \<^verbatim>\<open>Qwen3RotaryEmbedding\<close>: \<^verbatim>\<open>inv_freq\<close> and \<^verbatim>\<open>attention_scaling\<close> come from
  \<^verbatim>\<open>ROPE_INIT_FUNCTIONS[rope_type](config, device)\<close> of the transformers library, which is not
  part of this repository: both are parameters.
\<close>

record rotary =
  inv_freq :: "real list"
  attention_scaling :: real

record attention =
  num_heads :: int
  kv_heads :: int
  num_key_value_groups :: int
  attn_head_dim :: int
  q_proj :: linear
  k_proj :: linear
  v_proj :: linear
  o_proj :: linear
  q_norm :: rmsnorm
  k_norm :: rmsnorm
  rotary_emb :: rotary

definition Qwen3Attention_init :: "init_weights \<Rightarrow> rotary \<Rightarrow> Qwen3Config \<Rightarrow> error + attention" where
  \<comment> \<open>\<^verbatim>\<open>getattr(config, "head_dim", hidden_size // num_heads)\<close> evaluates its default
      before the lookup, so the division is done (and can fail) also when \<^verbatim>\<open>head_dim\<close> is set.\<close>
  "Qwen3Attention_init iw rot config =
     bindE (py_floordiv (num_attention_heads config) (num_key_value_heads config)) (\<lambda>groups.
     bindE (py_floordiv (hidden_size config) (num_attention_heads config)) (\<lambda>dflt.
     let hd = (case head_dim config of Some d \<Rightarrow> d | None \<Rightarrow> dflt);
         in_f = hidden_size config * 2 in
     bindE (nn_Linear (w_q iw) in_f (num_attention_heads config * hd)) (\<lambda>q.
     bindE (nn_Linear (w_k iw) in_f (num_key_value_heads config * hd)) (\<lambda>k.
     bindE (nn_Linear (w_v iw) in_f (num_key_value_heads config * hd)) (\<lambda>v.
     bindE (nn_Linear (w_o iw) (num_attention_heads config * hd) (hidden_size config)) (\<lambda>ou.
     bindE (Qwen3RMSNorm_init hd (rms_norm_eps config)) (\<lambda>qn.
     bindE (Qwen3RMSNorm_init hd (rms_norm_eps config)) (\<lambda>kn.
     Inr \<lparr>num_heads = num_attention_heads config, kv_heads = num_key_value_heads config,
          num_key_value_groups = groups, attn_head_dim = hd,
          q_proj = q, k_proj = k, v_proj = v, o_proj = ou,
          q_norm = qn, k_norm = kn, rotary_emb = rot\<rparr>))))))))"

text \<open>
  \<^verbatim>\<open>Qwen3MLP.__init__\<close>: three projections, and the activation, which is \<^verbatim>\<open>F.silu\<close> for
  the name \<open>silu\<close> and \<^verbatim>\<open>getattr(F, config.hidden_act)\<close> for any other name; the lookup
  raises AttributeError for a name that \<^verbatim>\<open>torch.nn.functional\<close> does not have.
\<close>

datatype act_fn = Silu | Functional string

record mlp =
  gate_proj :: linear
  up_proj :: linear
  down_proj :: linear
  act_fn :: act_fn

definition Qwen3MLP_init :: "init_weights \<Rightarrow> Qwen3Config \<Rightarrow> error + mlp" where
  "Qwen3MLP_init iw config =
     bindE (nn_Linear (w_gate iw) (hidden_size config) (intermediate_size config)) (\<lambda>g.
     bindE (nn_Linear (w_up iw) (hidden_size config) (intermediate_size config)) (\<lambda>u.
     bindE (nn_Linear (w_down iw) (intermediate_size config) (hidden_size config)) (\<lambda>d.
     bindE (if hidden_act config = ''silu'' then Inr Silu
            else if functional_attrs iw (hidden_act config) then Inr (Functional (hidden_act config))
            else Inl AttributeError) (\<lambda>act.
     Inr \<lparr>gate_proj = g, up_proj = u, down_proj = d, act_fn = act\<rparr>))))"

text \<open>
  The two attention classes. \<^verbatim>\<open>Qwen3FlexAttention\<close> inherits \<^verbatim>\<open>__init__\<close> from
  \<^verbatim>\<open>Qwen3Attention\<close> and overrides \<^verbatim>\<open>forward\<close>: the variant says which
  \<^verbatim>\<open>forward\<close> the object has.
\<close>

datatype self_attn = StandardAttention attention | BlockSparseAttention attention

record decoder_layer =
  layer_hidden_size :: int
  self_attn :: self_attn
  layer_mlp :: mlp
  hidden_norm :: rmsnorm
  input_layernorm :: rmsnorm
  post_attention_layernorm :: rmsnorm

definition Qwen3DecoderLayer_init ::
    "init_weights \<Rightarrow> rotary \<Rightarrow> Qwen3Config \<Rightarrow> string \<Rightarrow> error + decoder_layer" where
  "Qwen3DecoderLayer_init iw rot config attention_backend =
     bindE (if attention_backend = ''sdpa''
              then bindE (Qwen3Attention_init iw rot config) (\<lambda>a. Inr (StandardAttention a))
            else if attention_backend = ''flex_attention''
              then bindE (Qwen3Attention_init iw rot config) (\<lambda>a. Inr (BlockSparseAttention a))
            else Inl (ValueError (''Unknown attention backend '' @ attention_backend))) (\<lambda>sa.
     bindE (Qwen3MLP_init iw config) (\<lambda>m.
     bindE (Qwen3RMSNorm_init (hidden_size config) (rms_norm_eps config)) (\<lambda>hn.
     bindE (Qwen3RMSNorm_init (hidden_size config) (rms_norm_eps config)) (\<lambda>iln.
     bindE (Qwen3RMSNorm_init (hidden_size config) (rms_norm_eps config)) (\<lambda>pln.
     Inr \<lparr>layer_hidden_size = hidden_size config, self_attn = sa, layer_mlp = m,
          hidden_norm = hn, input_layernorm = iln, post_attention_layernorm = pln\<rparr>)))))"

text \<open>
  \<^verbatim>\<open>nn.Embedding(num_embeddings, embedding_dim, padding_idx)\<close> of the framework: it asserts
  that a padding index lies within the table (a negative one counts from the end), creates
  the table, which fails for a negative size, and zeroes the padding row, which fails when the
  table has no row.
\<close>

record embedding =
  num_embeddings :: nat
  embedding_dim :: nat
  padding_idx :: "nat option"
  embed_weight :: "nat \<Rightarrow> nat \<Rightarrow> real"

definition nn_Embedding :: "(nat \<Rightarrow> nat \<Rightarrow> real) \<Rightarrow> int \<Rightarrow> int \<Rightarrow> int option \<Rightarrow> error + embedding" where
  "nn_Embedding w n d pad =
     (if (case pad of None \<Rightarrow> False | Some p \<Rightarrow> (0 < p \<and> \<not> p < n) \<or> (p < 0 \<and> \<not> - n \<le> p))
        then Inl AssertionError
      else if n < 0 \<or> d < 0 then Inl RuntimeError
      else
        let p' = map_option (\<lambda>p. nat (if p < 0 then n + p else p)) pad in
        if (case p' of None \<Rightarrow> False | Some p \<Rightarrow> nat n \<le> p) then Inl IndexError
        else Inr \<lparr>num_embeddings = nat n, embedding_dim = nat d, padding_idx = p',
                  embed_weight = (\<lambda>r c. if p' = Some r then 0 else w r c)\<rparr>)"

definition torch_zeros :: "int \<Rightarrow> error + nat" where
  \<comment> \<open>\<^verbatim>\<open>torch.zeros(n)\<close>, of which only the size is kept: a negative size is refused.\<close>
  "torch_zeros n = (if n < 0 then Inl RuntimeError else Inr (nat n))"

record eagle3 =
  config :: Qwen3Config
  embed_tokens :: embedding
  midlayer :: decoder_layer
  fc :: linear
  norm :: rmsnorm
  lm_head :: linear
  t2d_size :: nat
  d2t_size :: nat

definition Qwen3ForCausalLMEagle3_init ::
    "init_weights \<Rightarrow> rotary \<Rightarrow> Qwen3Config \<Rightarrow> string \<Rightarrow> error + eagle3" where
  \<comment> \<open>The constructor of the base class \<^verbatim>\<open>Eagle3DraftModel\<close>, which is called first, is
      not modelled.\<close>
  "Qwen3ForCausalLMEagle3_init iw rot cfg attention_backend =
     bindE (nn_Embedding (w_embed iw) (vocab_size cfg) (hidden_size cfg) (pad_token_id cfg)) (\<lambda>em.
     bindE (Qwen3DecoderLayer_init iw rot cfg attention_backend) (\<lambda>ml.
     bindE (case target_hidden_size cfg of
              Some t \<Rightarrow> nn_Linear (w_fc iw) (t * 3) (hidden_size cfg)
            | None \<Rightarrow> nn_Linear (w_fc iw) (hidden_size cfg * 3) (hidden_size cfg)) (\<lambda>f.
     bindE (Qwen3RMSNorm_init (hidden_size cfg) (rms_norm_eps cfg)) (\<lambda>n.
     bindE (nn_Linear (w_lm_head iw) (hidden_size cfg) (draft_vocab_size cfg)) (\<lambda>lm.
     bindE (torch_zeros (vocab_size cfg)) (\<lambda>t2d.
     bindE (torch_zeros (draft_vocab_size cfg)) (\<lambda>d2t.
     Inr \<lparr>config = cfg, embed_tokens = em, midlayer = ml, fc = f, norm = n, lm_head = lm,
          t2d_size = t2d, d2t_size = d2t\<rparr>)))))))"

definition project_hidden_states :: "eagle3 \<Rightarrow> real tensor \<Rightarrow> error + real tensor" where
  \<comment> \<open>\<^verbatim>\<open>hidden_states.size(-1)\<close> raises IndexError on a tensor of rank 0.\<close>
  "project_hidden_states m hidden_states =
     (if shape hidden_states = [] then Inl IndexError
      else if int (last (shape hidden_states)) \<noteq> hidden_size (config m) * 3 then Inl AssertionError
      else linear_forward (fc m) hidden_states)"

section \<open>The incremental attention cache and its allocation\<close>

text \<open>
  \<^verbatim>\<open>cache_hidden\<close> is a Python list of two lists, the keys and the values of the steps seen so
  far. Python objects live in a store; \<^verbatim>\<open>[[], []]\<close> allocates a new object there.
\<close>

type_synonym kv_cache = "real tensor list \<times> real tensor list"

record heap =
  cells :: "nat \<rightharpoonup> kv_cache"
  next_free :: nat

definition heap_ok :: "heap \<Rightarrow> bool" where
  "heap_ok h = (\<forall>a. a \<in> dom (cells h) \<longrightarrow> a < next_free h)"

definition new_cache :: "heap \<Rightarrow> nat \<times> heap" where
  \<comment> \<open>\<^verbatim>\<open>[[], []]\<close>\<close>
  "new_cache h =
     (next_free h, h\<lparr>cells := (cells h)(next_free h \<mapsto> ([], [])), next_free := Suc (next_free h)\<rparr>)"

definition forward_cache_hidden :: "int \<Rightarrow> heap \<Rightarrow> nat option \<times> heap" where
  \<comment> \<open>The first statement of \<^verbatim>\<open>Qwen3ForCausalLMEagle3.forward\<close>.\<close>
  "forward_cache_hidden ttt_length h =
     (if ttt_length = 1 then (None, h)
      else (case new_cache h of (a, h') \<Rightarrow> (Some a, h')))"

definition empty_heap :: heap where
  "empty_heap = \<lparr>cells = Map.empty, next_free = 0\<rparr>"

section \<open>The JSONL sampler\<close>

text \<open>
  \<^verbatim>\<open>scripts/jsonl_sample.py\<close>. The input file is the list of lines that iterating over it
  yields (each with its terminator), the output file the list of strings passed to
  \<^verbatim>\<open>write\<close>, in order. Python's module \<^verbatim>\<open>random\<close> keeps one global generator:
  its state is threaded through, \<^verbatim>\<open>random.seed\<close> and \<^verbatim>\<open>random.randint\<close> are the
  library's and are parameters, as is \<^verbatim>\<open>json.loads\<close> (\<open>is_json\<close> says whether it accepts
  a line).
\<close>

record 'g random_lib =
  seed_fn :: "int \<Rightarrow> 'g"
  randint :: "'g \<Rightarrow> int \<Rightarrow> int \<Rightarrow> int \<times> 'g"

text \<open>The contract of \<^verbatim>\<open>random.randint(a, b)\<close>: a value between \<open>a\<close> and \<open>b\<close>, both included.\<close>

definition randint_ok :: "'g random_lib \<Rightarrow> bool" where
  "randint_ok lib = (\<forall>g a b. a \<le> b \<longrightarrow> a \<le> fst (randint lib g a b) \<and> fst (randint lib g a b) \<le> b)"

text \<open>\<^verbatim>\<open>xs[i] = v\<close>: a negative index counts from the end, an index out of range raises.\<close>

definition list_setitem :: "'a list \<Rightarrow> int \<Rightarrow> 'a \<Rightarrow> error + 'a list" where
  "list_setitem xs i v =
     (let n = int (length xs); j = (if i < 0 then n + i else i)
      in if 0 \<le> j \<and> j < n then Inr (xs[nat j := v]) else Inl IndexError)"

text \<open>
  The loop of \<^verbatim>\<open>sample_fixed_size\<close> over the lines still to come, on the state
  (reservoir, valid_seen, total_seen, generator). It consumes the lines once, front to back.
\<close>

type_synonym 'g sampler_state = "(nat \<times> string) list \<times> int \<times> int \<times> 'g"

fun reservoir_loop ::
  "'g random_lib \<Rightarrow> (string \<Rightarrow> bool) \<Rightarrow> bool \<Rightarrow> int \<Rightarrow> (nat \<times> string) list
     \<Rightarrow> 'g sampler_state \<Rightarrow> error + 'g sampler_state" where
  "reservoir_loop lib is_json validate sample_size [] st = Inr st"
| "reservoir_loop lib is_json validate sample_size ((pos, raw) # rest) (reservoir, valid_seen, total_seen, g) =
     (if validate \<and> \<not> is_json raw
        then reservoir_loop lib is_json validate sample_size rest (reservoir, valid_seen, total_seen + 1, g)
      else if int (length reservoir) < sample_size
        then reservoir_loop lib is_json validate sample_size rest
               (reservoir @ [(pos, raw)], valid_seen + 1, total_seen + 1, g)
      else (case randint lib g 1 (valid_seen + 1) of (j, g') \<Rightarrow>
             if j \<le> sample_size
               then (case list_setitem reservoir (j - 1) (pos, raw) of
                       Inl e \<Rightarrow> Inl e
                     | Inr r \<Rightarrow> reservoir_loop lib is_json validate sample_size rest
                                 (r, valid_seen + 1, total_seen + 1, g'))
             else reservoir_loop lib is_json validate sample_size rest
                    (reservoir, valid_seen + 1, total_seen + 1, g')))"

text \<open>\<^verbatim>\<open>iter_lines\<close>: the lines with their 1-based positions.\<close>

definition iter_lines :: "string list \<Rightarrow> (nat \<times> string) list" where
  "iter_lines file_lines = enumerate 1 file_lines"

text \<open>
  \<^verbatim>\<open>sample_fixed_size\<close> returns what was written, the pair (total_seen, valid_seen) and
  the generator it leaves behind. \<open>g\<close> is the generator state at entry, which
  \<^verbatim>\<open>random.seed(seed)\<close> overwrites.
\<close>

definition sample_fixed_size ::
  "'g random_lib \<Rightarrow> (string \<Rightarrow> bool) \<Rightarrow> 'g \<Rightarrow> string list \<Rightarrow> int \<Rightarrow> int \<Rightarrow> bool
     \<Rightarrow> error + (string list \<times> (int \<times> int) \<times> 'g)" where
  "sample_fixed_size lib is_json g file_lines sample_size seed validate =
     (case reservoir_loop lib is_json validate sample_size (iter_lines file_lines)
             ([], 0, 0, seed_fn lib seed) of
        Inl e \<Rightarrow> Inl e
      | Inr (reservoir, valid_seen, total_seen, g') \<Rightarrow>
          Inr (map snd (sort_key fst reservoir), (total_seen, valid_seen), g'))"

text \<open>The lines that are not skipped: all of them without \<^verbatim>\<open>--validate\<close>.\<close>

definition valid_lines :: "(string \<Rightarrow> bool) \<Rightarrow> bool \<Rightarrow> string list \<Rightarrow> string list" where
  "valid_lines is_json validate file_lines = filter (\<lambda>raw. \<not> (validate \<and> \<not> is_json raw)) file_lines"

section \<open>Tensor operations\<close>

text \<open>
  The operations of torch that the attention code calls, each with the shape check that
  torch makes before it computes. Numbers are real numbers: rounding, dtype casts
  (\<^verbatim>\<open>.float()\<close>, \<^verbatim>\<open>.to(dtype)\<close>), device moves and \<^verbatim>\<open>.contiguous()\<close> change nothing here,
  and NaN is not modelled.
\<close>

definition rank :: "'a tensor \<Rightarrow> nat" where
  "rank a = length (shape a)"

definition numel :: "nat list \<Rightarrow> nat" where
  "numel s = prod_list s"

definition tensor_map :: "('a \<Rightarrow> 'b) \<Rightarrow> 'a tensor \<Rightarrow> 'b tensor" where
  "tensor_map f a = Tensor (shape a) (\<lambda>idx. f (entry a idx))"

text \<open>
  Broadcasting aligns two shapes at their last axis; two sizes agree when they are equal or
  one of them is 1. \<open>bc_dims\<close> works on the reversed shapes. An operand is read at
  \<open>bc_index\<close>: its own axes of the result's index, with 0 on an axis of size 1.
\<close>

fun bc_dims :: "nat list \<Rightarrow> nat list \<Rightarrow> nat list option" where
  "bc_dims [] ys = Some ys"
| "bc_dims (x # xs) [] = Some (x # xs)"
| "bc_dims (x # xs) (y # ys) =
     (if x = y \<or> y = 1 then map_option ((#) x) (bc_dims xs ys)
      else if x = 1 then map_option ((#) y) (bc_dims xs ys)
      else None)"

definition broadcast_shapes :: "nat list \<Rightarrow> nat list \<Rightarrow> nat list option" where
  "broadcast_shapes s t = map_option rev (bc_dims (rev s) (rev t))"

definition bc_index :: "nat list \<Rightarrow> nat list \<Rightarrow> nat list" where
  "bc_index s idx = map2 (\<lambda>n i. if n = 1 then 0 else i) s (drop (length idx - length s) idx)"

definition binop :: "('a \<Rightarrow> 'b \<Rightarrow> 'c) \<Rightarrow> 'a tensor \<Rightarrow> 'b tensor \<Rightarrow> error + 'c tensor" where
  \<comment> \<open>an elementwise operation \<^verbatim>\<open>a + b\<close>, \<^verbatim>\<open>a * b\<close> of two tensors\<close>
  "binop f a b =
     (case broadcast_shapes (shape a) (shape b) of
        None \<Rightarrow> Inl RuntimeError
      | Some s \<Rightarrow> Inr (Tensor s (\<lambda>idx. f (entry a (bc_index (shape a) idx))
                                        (entry b (bc_index (shape b) idx)))))"

text \<open>
  \<^verbatim>\<open>torch.matmul\<close> on operands of rank at least 2, which is what the attention code gives it
  (the ranks 0 and 1, which torch treats apart, are refused here): the batch axes broadcast,
  the inner sizes must agree.
\<close>

definition matmul :: "real tensor \<Rightarrow> real tensor \<Rightarrow> error + real tensor" where
  "matmul a b =
     (if rank a < 2 \<or> rank b < 2 then Inl RuntimeError
      else let sa = shape a; sb = shape b;
               ba = take (length sa - 2) sa; bb = take (length sb - 2) sb;
               m = sa ! (length sa - 2); k = last sa;
               k' = sb ! (length sb - 2); n = last sb
           in if k \<noteq> k' then Inl RuntimeError
              else (case broadcast_shapes ba bb of
                      None \<Rightarrow> Inl RuntimeError
                    | Some bs \<Rightarrow> Inr (Tensor (bs @ [m, n])
                        (\<lambda>idx. let bi = take (length idx - 2) idx;
                                   i = idx ! (length idx - 2); c = last idx
                               in \<Sum>j\<leftarrow>[0..<k]. entry a (bc_index ba bi @ [i, j])
                                               * entry b (bc_index bb bi @ [j, c])))))"

definition swap :: "nat \<Rightarrow> nat \<Rightarrow> 'a list \<Rightarrow> 'a list" where
  "swap i j xs = xs[i := xs ! j, j := xs ! i]"

definition transpose_dims :: "nat \<Rightarrow> nat \<Rightarrow> 'a tensor \<Rightarrow> error + 'a tensor" where
  \<comment> \<open>\<^verbatim>\<open>x.transpose(i, j)\<close> with non-negative axes\<close>
  "transpose_dims i j a =
     (if i < rank a \<and> j < rank a
      then Inr (Tensor (swap i j (shape a)) (\<lambda>idx. entry a (swap i j idx)))
      else Inl IndexError)"

definition cat_last :: "'a tensor \<Rightarrow> 'a tensor \<Rightarrow> error + 'a tensor" where
  \<comment> \<open>\<^verbatim>\<open>torch.cat((a, b), dim=-1)\<close>: no broadcasting, the other axes must be equal\<close>
  "cat_last a b =
     (if shape a = [] \<or> shape b = [] \<or> butlast (shape a) \<noteq> butlast (shape b) then Inl RuntimeError
      else Inr (Tensor (butlast (shape a) @ [last (shape a) + last (shape b)])
             (\<lambda>idx. if last idx < last (shape a) then entry a idx
                    else entry b (butlast idx @ [last idx - last (shape a)]))))"

definition sum_last :: "real tensor \<Rightarrow> real tensor" where
  \<comment> \<open>\<^verbatim>\<open>x.sum(-1)\<close>; a tensor of rank 0 is its own sum\<close>
  "sum_last a =
     (if shape a = [] then a
      else Tensor (butlast (shape a)) (\<lambda>idx. \<Sum>j\<leftarrow>[0..<last (shape a)]. entry a (idx @ [j])))"

definition unsqueeze_last :: "'a tensor \<Rightarrow> 'a tensor" where
  \<comment> \<open>\<^verbatim>\<open>x[..., None]\<close>\<close>
  "unsqueeze_last a = Tensor (shape a @ [1]) (\<lambda>idx. entry a (butlast idx))"

definition unsqueeze :: "nat \<Rightarrow> 'a tensor \<Rightarrow> error + 'a tensor" where
  \<comment> \<open>\<^verbatim>\<open>x.unsqueeze(d)\<close> with a non-negative axis\<close>
  "unsqueeze d a =
     (if d \<le> rank a
      then Inr (Tensor (take d (shape a) @ [1] @ drop d (shape a)) (\<lambda>idx. entry a (take d idx @ drop (Suc d) idx)))
      else Inl IndexError)"

definition slice_last :: "nat \<Rightarrow> nat \<Rightarrow> 'a tensor \<Rightarrow> error + 'a tensor" where
  \<comment> \<open>\<^verbatim>\<open>x[..., lo:hi]\<close> with bounds that are not negative; a slice never fails on its bounds\<close>
  "slice_last lo hi a =
     (if shape a = [] then Inl IndexError
      else let n = last (shape a); l = min lo n; h = max l (min hi n)
           in Inr (Tensor (butlast (shape a) @ [h - l]) (\<lambda>idx. entry a (butlast idx @ [last idx + l]))))"

definition index_last :: "nat \<Rightarrow> 'a tensor \<Rightarrow> error + 'a tensor" where
  \<comment> \<open>\<^verbatim>\<open>x[..., k]\<close> with an index that is not negative\<close>
  "index_last k a =
     (if shape a = [] \<or> last (shape a) \<le> k then Inl IndexError
      else Inr (Tensor (butlast (shape a)) (\<lambda>idx. entry a (idx @ [k]))))"

text \<open>
  \<^verbatim>\<open>x.view(s)\<close> and \<^verbatim>\<open>x.reshape(s)\<close> of a contiguous tensor, with sizes that are not
  negative: the entries are kept in row-major order, and the number of entries must not change.
\<close>

definition flat_index :: "nat list \<Rightarrow> nat list \<Rightarrow> nat" where
  "flat_index s idx = foldl (\<lambda>acc (n, i). acc * n + i) 0 (zip s idx)"

fun unflat :: "nat list \<Rightarrow> nat \<Rightarrow> nat list" where
  "unflat [] k = []"
| "unflat (n # s) k = (k div numel s) mod n # unflat s (k mod numel s)"

definition reshape :: "nat list \<Rightarrow> 'a tensor \<Rightarrow> error + 'a tensor" where
  "reshape s a =
     (if numel (shape a) \<noteq> numel s then Inl RuntimeError
      else Inr (Tensor s (\<lambda>idx. entry a (unflat (shape a) (flat_index s idx)))))"

text \<open>
  An additive attention mask holds 0 where a key may be seen and minus infinity where it
  may not: \<open>xreal\<close> is a real number or minus infinity. Only what the attention code does
  with such values is defined: adding a real number, and the exponential inside softmax,
  where minus infinity gives weight 0.
\<close>

datatype xreal = NegInf | Fin real

fun add_mask :: "real \<Rightarrow> xreal \<Rightarrow> xreal" where
  "add_mask r NegInf = NegInf"
| "add_mask r (Fin m) = Fin (r + m)"

fun xexp :: "xreal \<Rightarrow> real" where
  "xexp NegInf = 0"
| "xexp (Fin r) = exp r"

definition softmax_last :: "xreal tensor \<Rightarrow> real tensor" where
  \<comment> \<open>\<^verbatim>\<open>softmax(x, dim=-1)\<close>\<close>
  "softmax_last a =
     Tensor (shape a)
       (\<lambda>idx. xexp (entry a idx)
              / (\<Sum>j\<leftarrow>[0..<last (shape a)]. xexp (entry a (butlast idx @ [j]))))"

section \<open>The attention layer\<close>

text \<open>
  \<^verbatim>\<open>x.view(d1, ..., dn)\<close> and \<^verbatim>\<open>x.reshape(d1, ..., dn)\<close> with Python integers: one size may be
  \<open>-1\<close> and is then inferred from the number of entries; any other negative size is refused.
\<close>

definition py_view :: "int list \<Rightarrow> 'a tensor \<Rightarrow> error + 'a tensor" where
  "py_view dims a =
     (if list_ex (\<lambda>d. d < - 1) dims \<or> 1 < length (filter (\<lambda>d. d = - 1) dims) then Inl RuntimeError
      else if list_ex (\<lambda>d. d = - 1) dims then
        (let p = nat (prod_list (filter (\<lambda>d. d \<noteq> - 1) dims)) in
         if p = 0 \<or> numel (shape a) mod p \<noteq> 0 then Inl RuntimeError
         else reshape (map (\<lambda>d. if d = - 1 then numel (shape a) div p else nat d) dims) a)
      else reshape (map nat dims) a)"

subsection \<open>Grouped-query repetition and rotary position embedding\<close>

definition repeat_kv :: "real tensor \<Rightarrow> int \<Rightarrow> error + real tensor" where
  \<comment> \<open>\<^verbatim>\<open>expand\<close> reads \<open>-1\<close> as "keep this size" and refuses any other negative size.\<close>
  "repeat_kv hidden_states n_rep =
     (case shape hidden_states of
        [batch, n_kv, slen, hdim] \<Rightarrow>
          if n_rep = 1 then Inr hidden_states
          else if n_rep < - 1 then Inl RuntimeError
          else py_view [int batch, int n_kv * n_rep, int slen, int hdim]
                 (Tensor [batch, n_kv, if n_rep = - 1 then 1 else nat n_rep, slen, hdim]
                    (\<lambda>idx. entry hidden_states [idx ! 0, idx ! 1, idx ! 3, idx ! 4]))
      | _ \<Rightarrow> Inl (ValueError (if rank hidden_states < 4 then ''not enough values to unpack''
                              else ''too many values to unpack'')))"

definition rotate_half :: "real tensor \<Rightarrow> error + real tensor" where
  "rotate_half x =
     (if shape x = [] then Inl IndexError
      else let h = last (shape x) div 2 in
        bindE (slice_last 0 h x) (\<lambda>x1.
        bindE (slice_last h (last (shape x)) x) (\<lambda>x2.
        cat_last (tensor_map uminus x2) x1)))"

definition apply_rotary_pos_emb ::
    "real tensor \<Rightarrow> real tensor \<Rightarrow> real tensor \<Rightarrow> real tensor \<Rightarrow> error + (real tensor \<times> real tensor)" where
  \<comment> \<open>with the default \<^verbatim>\<open>unsqueeze_dim=1\<close>, which is how every caller uses it\<close>
  "apply_rotary_pos_emb q k cos_t sin_t =
     bindE (unsqueeze 1 cos_t) (\<lambda>c.
     bindE (unsqueeze 1 sin_t) (\<lambda>s.
     bindE (binop (*) q c) (\<lambda>qc.
     bindE (rotate_half q) (\<lambda>rq.
     bindE (binop (*) rq s) (\<lambda>rqs.
     bindE (binop (+) qc rqs) (\<lambda>q_embed.
     bindE (binop (*) k c) (\<lambda>kc.
     bindE (rotate_half k) (\<lambda>rk.
     bindE (binop (*) rk s) (\<lambda>rks.
     bindE (binop (+) kc rks) (\<lambda>k_embed.
     Inr (q_embed, k_embed)))))))))))"

definition Qwen3RotaryEmbedding_forward :: "rotary \<Rightarrow> int tensor \<Rightarrow> error + (real tensor \<times> real tensor)" where
  \<comment> \<open>The first argument \<^verbatim>\<open>x\<close> of the source gives dtype and device only. The decorator
      \<^verbatim>\<open>dynamic_rope_update\<close> of the transformers library, which recomputes \<^verbatim>\<open>inv_freq\<close>
      for the dynamic rope types, is not modelled: \<^verbatim>\<open>inv_freq\<close> is what the record holds.\<close>
  "Qwen3RotaryEmbedding_forward rot position_ids =
     (if rank position_ids = 0 then Inl IndexError
      else if rank position_ids = 1 then Inl IndexError
      else
        let inv_freq_expanded = Tensor [hd (shape position_ids), length (inv_freq rot), 1]
                                  (\<lambda>idx. inv_freq rot ! (idx ! 1)) in
        bindE (unsqueeze 1 (tensor_map real_of_int position_ids)) (\<lambda>position_ids_expanded.
        bindE (matmul inv_freq_expanded position_ids_expanded) (\<lambda>prod.
        bindE (transpose_dims 1 2 prod) (\<lambda>freqs.
        bindE (cat_last freqs freqs) (\<lambda>emb.
        Inr (tensor_map (\<lambda>e. cos e * attention_scaling rot) emb,
             tensor_map (\<lambda>e. sin e * attention_scaling rot) emb))))))"

text \<open>
  The composition that the rotary round-trip property speaks of: the tables of the encoder at
  the given positions, the rotation of \<open>q\<close> and \<open>k\<close>, and the rotation of the result with
  the sine table negated.
\<close>

definition rotate_then_unrotate ::
    "rotary \<Rightarrow> int tensor \<Rightarrow> real tensor \<Rightarrow> real tensor \<Rightarrow> error + (real tensor \<times> real tensor)" where
  "rotate_then_unrotate rot position_ids q k =
     bindE (Qwen3RotaryEmbedding_forward rot position_ids) (\<lambda>(cos_t, sin_t).
     bindE (apply_rotary_pos_emb q k cos_t sin_t) (\<lambda>(q', k').
     apply_rotary_pos_emb q' k' cos_t (tensor_map uminus sin_t)))"

subsection \<open>Per-head normalization\<close>

definition mean_last_keepdim :: "real tensor \<Rightarrow> real tensor" where
  \<comment> \<open>\<^verbatim>\<open>x.mean(-1, keepdim=True)\<close>\<close>
  "mean_last_keepdim a =
     (if shape a = [] then a
      else Tensor (butlast (shape a) @ [1])
             (\<lambda>idx. (\<Sum>j\<leftarrow>[0..<last (shape a)]. entry a (butlast idx @ [j])) / real (last (shape a))))"

definition Qwen3RMSNorm_forward :: "rmsnorm \<Rightarrow> real tensor \<Rightarrow> error + real tensor" where
  "Qwen3RMSNorm_forward n hidden_states =
     (let variance = mean_last_keepdim (tensor_map (\<lambda>x. x ^ 2) hidden_states) in
      bindE (binop (*) hidden_states
               (tensor_map (\<lambda>v. 1 / sqrt (v + variance_epsilon n)) variance)) (\<lambda>normed.
      binop (*) (Tensor [norm_size n] (\<lambda>idx. norm_weight n (last idx))) normed))"

subsection \<open>Scaled dot-product attention of the framework\<close>

text \<open>
  \<^verbatim>\<open>torch.nn.functional.scaled_dot_product_attention\<close> is not code of this repository. It is
  modelled on the reference implementation that its documentation gives: scale
  \<open>1 / sqrt (query.size(-1))\<close>, a bias that is the additive mask, or the causal mask
  (minus infinity above the diagonal) when \<^verbatim>\<open>is_causal\<close> is set, added in place to
  \<open>Q K\<^sup>T * scale\<close>, then softmax over the keys and the product with the values.
\<close>

definition causal_bias :: "nat \<Rightarrow> nat \<Rightarrow> xreal tensor" where
  "causal_bias L S = Tensor [L, S] (\<lambda>idx. if idx ! 0 < idx ! 1 then NegInf else Fin 0)"

definition scaled_dot_product_attention ::
    "real tensor \<Rightarrow> real tensor \<Rightarrow> real tensor \<Rightarrow> xreal tensor option \<Rightarrow> bool \<Rightarrow> error + real tensor" where
  "scaled_dot_product_attention query key val attn_mask is_causal =
     (if rank query < 2 \<or> rank key < 2 then Inl RuntimeError
      else if is_causal \<and> attn_mask \<noteq> None then Inl RuntimeError
      else
        let L = shape query ! (rank query - 2); S = shape key ! (rank key - 2);
            scale_factor = 1 / sqrt (real (last (shape query)));
            attn_bias = (case attn_mask of None \<Rightarrow> if is_causal then causal_bias L S
                                                    else Tensor [L, S] (\<lambda>_. Fin 0)
                         | Some m \<Rightarrow> m) in
        bindE (transpose_dims (rank key - 2) (rank key - 1) key) (\<lambda>kT.
        bindE (matmul query kT) (\<lambda>qk.
        bindE (binop add_mask (tensor_map (\<lambda>x. x * scale_factor) qk) attn_bias) (\<lambda>attn_weight.
        if shape attn_weight \<noteq> shape qk then Inl RuntimeError
        else matmul (softmax_last attn_weight) val))))"

subsection \<open>\<^verbatim>\<open>Qwen3Attention.forward\<close>\<close>

text \<open>
  The projections, the split into heads and the per-head normalization of query and key:
  the part of \<^verbatim>\<open>forward\<close> before the two modes part. It returns \<^verbatim>\<open>bsz\<close>, \<^verbatim>\<open>q_len\<close> and
  the three states.
\<close>

definition project_heads ::
    "attention \<Rightarrow> real tensor \<Rightarrow> error + (nat \<times> nat \<times> real tensor \<times> real tensor \<times> real tensor)" where
  "project_heads a hidden_states =
     (case shape hidden_states of
        [bsz, q_len, _] \<Rightarrow>
          bindE (linear_forward (q_proj a) hidden_states) (\<lambda>q0.
          bindE (linear_forward (k_proj a) hidden_states) (\<lambda>k0.
          bindE (linear_forward (v_proj a) hidden_states) (\<lambda>v0.
          bindE (bindE (py_view [int bsz, int q_len, num_heads a, attn_head_dim a] q0)
                   (transpose_dims 1 2)) (\<lambda>q1.
          bindE (bindE (py_view [int bsz, int q_len, kv_heads a, attn_head_dim a] k0)
                   (transpose_dims 1 2)) (\<lambda>k1.
          bindE (bindE (py_view [int bsz, int q_len, kv_heads a, attn_head_dim a] v0)
                   (transpose_dims 1 2)) (\<lambda>value_states.
          bindE (Qwen3RMSNorm_forward (q_norm a) q1) (\<lambda>query_states.
          bindE (Qwen3RMSNorm_forward (k_norm a) k1) (\<lambda>key_states.
          Inr (bsz, q_len, query_states, key_states, value_states)))))))))
      | _ \<Rightarrow> Inl (ValueError (if rank hidden_states < 3 then ''not enough values to unpack''
                              else ''too many values to unpack'')))"

text \<open>
  Rotary embedding at the given positions, then grouped-query expansion of key and value:
  the statements both modes share, after the position ids are known.
\<close>

definition rotate_and_repeat ::
    "attention \<Rightarrow> real tensor \<Rightarrow> real tensor \<Rightarrow> real tensor \<Rightarrow> int tensor
       \<Rightarrow> error + (real tensor \<times> real tensor \<times> real tensor)" where
  "rotate_and_repeat a query_states key_states value_states position_ids =
     bindE (Qwen3RotaryEmbedding_forward (rotary_emb a) position_ids) (\<lambda>(cos_t, sin_t).
     bindE (apply_rotary_pos_emb query_states key_states cos_t sin_t) (\<lambda>(q, k).
     bindE (repeat_kv k (num_key_value_groups a)) (\<lambda>k'.
     bindE (repeat_kv value_states (num_key_value_groups a)) (\<lambda>v'.
     Inr (q, k', v')))))"

text \<open>
  The first loop of the cache branch: for \<open>i\<close> from 1 below \<open>lck\<close>, the elementwise product
  of the query with the cached key of step \<open>i\<close>, summed over the head dimension, scaled,
  and appended to the weights as one more column.
\<close>

fun weights_loop ::
    "real tensor \<Rightarrow> real \<Rightarrow> real tensor list \<Rightarrow> nat list \<Rightarrow> xreal tensor \<Rightarrow> error + xreal tensor" where
  "weights_loop query_states scale cache_k [] attn_weights = Inr attn_weights"
| "weights_loop query_states scale cache_k (i # rest) attn_weights =
     (if length cache_k \<le> i then Inl IndexError
      else case binop (*) query_states (cache_k ! i) of
             Inl e \<Rightarrow> Inl e
           | Inr qk \<Rightarrow>
               (case cat_last attn_weights
                       (tensor_map Fin (unsqueeze_last (tensor_map (\<lambda>x. x / scale) (sum_last qk)))) of
                  Inl e \<Rightarrow> Inl e
                | Inr w \<Rightarrow> weights_loop query_states scale cache_k rest w))"

text \<open>
  The second loop: for \<open>i\<close> from 1 below \<open>lck\<close>, the weight column \<open>q_len + i - 1\<close>,
  broadcast over the head dimension, times the cached value of step \<open>i\<close>, added to the output.
\<close>

fun output_loop ::
    "nat \<Rightarrow> real tensor \<Rightarrow> real tensor list \<Rightarrow> nat list \<Rightarrow> real tensor \<Rightarrow> error + real tensor" where
  "output_loop q_len attn_weights cache_v [] attn_output = Inr attn_output"
| "output_loop q_len attn_weights cache_v (i # rest) attn_output =
     (if length cache_v \<le> i then Inl IndexError
      else case index_last (q_len + i - 1) attn_weights of
             Inl e \<Rightarrow> Inl e
           | Inr attn_weightsi \<Rightarrow>
               (case binop (*) (unsqueeze_last attn_weightsi) (cache_v ! i) of
                  Inl e \<Rightarrow> Inl e
                | Inr attn_outputi \<Rightarrow>
                    (case binop (+) attn_output attn_outputi of
                       Inl e \<Rightarrow> Inl e
                     | Inr out \<Rightarrow> output_loop q_len attn_weights cache_v rest out)))"

text \<open>
  The attention of the cache branch, from \<^verbatim>\<open>k0 = cache_k[0]\<close> to the end of the second
  loop, on the cache as it is after this step's key and value were appended.
\<close>

definition cache_attention ::
    "nat \<Rightarrow> int \<Rightarrow> real tensor \<Rightarrow> real tensor list \<Rightarrow> real tensor list \<Rightarrow> xreal tensor option
       \<Rightarrow> error + real tensor" where
  "cache_attention q_len hdim query_states cache_k cache_v attention_mask =
     (if cache_k = [] \<or> cache_v = [] then Inl IndexError
      else
        let k0 = cache_k ! 0; v0 = cache_v ! 0; scale = sqrt (real_of_int hdim) in
        bindE (transpose_dims 2 3 k0) (\<lambda>k0T.
        bindE (matmul query_states k0T) (\<lambda>qk.
        let lck = length cache_k in
        bindE (case attention_mask of
                 None \<Rightarrow> Inl TypeError
               | Some m \<Rightarrow> binop add_mask (tensor_map (\<lambda>x. x / scale) qk) m) (\<lambda>attn_weights.
        bindE (weights_loop query_states scale cache_k [1..<lck] attn_weights) (\<lambda>attn_weights.
        let attn_weights = softmax_last attn_weights in
        bindE (slice_last 0 q_len attn_weights) (\<lambda>attn_weights0.
        bindE (matmul attn_weights0 v0) (\<lambda>attn_output.
        output_loop q_len attn_weights cache_v [1..<lck] attn_output)))))))"

text \<open>
  \<^verbatim>\<open>Qwen3Attention.forward\<close>. The cache is passed by reference and changed in place: the
  function returns, next to its result, the cache as the caller finds it afterwards, also
  when the call raises.
\<close>

definition merge_heads :: "attention \<Rightarrow> nat \<Rightarrow> nat \<Rightarrow> real tensor \<Rightarrow> error + real tensor" where
  \<comment> \<open>the last three statements of \<^verbatim>\<open>forward\<close>\<close>
  "merge_heads a bsz q_len attn_output =
     bindE (transpose_dims 1 2 attn_output) (\<lambda>t.
     bindE (py_view [int bsz, int q_len, attn_head_dim a * num_heads a] t) (\<lambda>r.
     linear_forward (o_proj a) r))"

definition Qwen3Attention_forward ::
    "attention \<Rightarrow> real tensor \<Rightarrow> kv_cache option \<Rightarrow> xreal tensor option \<Rightarrow> int tensor option
       \<Rightarrow> (error + real tensor) \<times> kv_cache option" where
  "Qwen3Attention_forward a hidden_states cache_hidden attention_mask position_ids =
     (case project_heads a hidden_states of
        Inl e \<Rightarrow> (Inl e, cache_hidden)
      | Inr (bsz, q_len, query_states, key_states, value_states) \<Rightarrow>
          (case cache_hidden of
             None \<Rightarrow>
               (bindE (case position_ids of
                         None \<Rightarrow> Inl AttributeError
                       | Some p \<Rightarrow> rotate_and_repeat a query_states key_states value_states p)
                  (\<lambda>(q, k, v).
                bindE (scaled_dot_product_attention q k v attention_mask (attention_mask = None))
                  (merge_heads a bsz q_len)),
                None)
           | Some (keys, vals) \<Rightarrow>
               let lck = length keys in
               (case (case position_ids of
                        None \<Rightarrow> Inl TypeError
                      | Some p \<Rightarrow> rotate_and_repeat a query_states key_states value_states
                                    (tensor_map (\<lambda>x. x + int lck) p)) of
                  Inl e \<Rightarrow> (Inl e, Some (keys, vals))
                | Inr (q, k, v) \<Rightarrow>
                    let cache_k = keys @ [k]; cache_v = vals @ [v] in
                    (bindE (cache_attention q_len (attn_head_dim a) q cache_k cache_v attention_mask)
                       (merge_heads a bsz q_len),
                     Some (cache_k, cache_v)))))"

section \<open>Concrete inputs\<close>

text \<open>Small configurations and inputs on which the results below are run.\<close>

definition example_config :: Qwen3Config where
  "example_config =
     \<lparr>hidden_size = 2, intermediate_size = 4, num_attention_heads = 1, num_key_value_heads = 1,
      head_dim = None, max_position_embeddings = 8, rms_norm_eps = 0,
      vocab_size = 4, draft_vocab_size = 2, target_hidden_size = Some 3,
      hidden_act = ''silu'', pad_token_id = Some 0\<rparr>"

definition example_weights :: init_weights where
  "example_weights =
     \<lparr>w_q = (\<lambda>_ _. 0), w_k = (\<lambda>_ _. 0), w_v = (\<lambda>_ _. 0), w_o = (\<lambda>_ _. 0),
      w_fc = (\<lambda>_ _. 0), w_lm_head = (\<lambda>_ _. 0),
      w_gate = (\<lambda>_ _. 0), w_up = (\<lambda>_ _. 0), w_down = (\<lambda>_ _. 0), w_embed = (\<lambda>_ _. 0),
      functional_attrs = (\<lambda>name. name \<in> set [''silu'', ''relu'', ''gelu''])\<rparr>"

definition example_rotary :: rotary where
  "example_rotary = \<lparr>inv_freq = [1], attention_scaling = 1\<rparr>"

definition example_random :: "nat random_lib" where
  "example_random =
     \<lparr>seed_fn = (\<lambda>s. nat \<bar>s\<bar>),
      randint = (\<lambda>g a b. (a + int (g mod nat (b - a + 1)), Suc g))\<rparr>"

definition scaled_rotary :: rotary where
  "scaled_rotary = \<lparr>inv_freq = [1], attention_scaling = 2\<rparr>"

definition example_positions :: "int tensor" where
  "example_positions = Tensor [1, 1] (\<lambda>_. 0)"

definition example_heads :: "real tensor" where
  "example_heads = Tensor [1, 1, 1, 2] (\<lambda>idx. if last idx = 0 then 1 else 3)"

definition example_attention :: attention where
  "example_attention =
     \<lparr>num_heads = 1, kv_heads = 1, num_key_value_groups = 1, attn_head_dim = 2,
      q_proj = \<lparr>in_features = 4, out_features = 2, weight = (\<lambda>ou i. if i = ou then 1 else 0)\<rparr>,
      k_proj = \<lparr>in_features = 4, out_features = 2, weight = (\<lambda>ou i. if i = ou then 1 else 0)\<rparr>,
      v_proj = \<lparr>in_features = 4, out_features = 2, weight = (\<lambda>ou i. if i = ou then 1 else 0)\<rparr>,
      o_proj = \<lparr>in_features = 2, out_features = 2, weight = (\<lambda>ou i. if i = ou then 1 else 0)\<rparr>,
      q_norm = \<lparr>norm_weight = (\<lambda>_. 1), norm_size = 2, variance_epsilon = 1\<rparr>,
      k_norm = \<lparr>norm_weight = (\<lambda>_. 1), norm_size = 2, variance_epsilon = 1\<rparr>,
      rotary_emb = example_rotary\<rparr>"

definition example_cache_entry :: "real tensor" where
  "example_cache_entry = Tensor [1, 1, 1, 2] (\<lambda>_. 1)"

section \<open>Basic facts\<close>

lemma bindE_Inr_iff: "bindE m f = Inr y \<longleftrightarrow> (\<exists>a. m = Inr a \<and> f a = Inr y)"
  by (cases m) (simp_all add: bindE_def)

lemma bindE_Inr [simp]: "bindE (Inr a) f = f a"
  by (simp add: bindE_def)

lemma bindE_Inl [simp]: "bindE (Inl e) f = Inl e"
  by (simp add: bindE_def)

lemma bindE_Inl_iff: "bindE m f = Inl e \<longleftrightarrow> m = Inl e \<or> (\<exists>a. m = Inr a \<and> f a = Inl e)"
  by (cases m) (simp_all add: bindE_def)

lemma bc_dims_refl: "bc_dims xs xs = Some xs"
  by (induction xs) auto

lemma broadcast_shapes_refl [simp]: "broadcast_shapes s s = Some s"
  by (simp add: broadcast_shapes_def bc_dims_refl)

lemma valid_index_Nil [simp]: "valid_index [] idx \<longleftrightarrow> idx = []"
  by (auto simp: valid_index_def)

lemma valid_index_Cons:
  "valid_index (n # s) idx \<longleftrightarrow> (\<exists>i rest. idx = i # rest \<and> i < n \<and> valid_index s rest)"
  by (cases idx) (auto simp: valid_index_def)

lemma valid_index4:
  "valid_index [B, H, S, D] idx \<longleftrightarrow> (\<exists>b h s d. idx = [b, h, s, d] \<and> b < B \<and> h < H \<and> s < S \<and> d < D)"
  by (auto simp: valid_index_Cons)

lemma valid_index3:
  "valid_index [B, S, D] idx \<longleftrightarrow> (\<exists>b s d. idx = [b, s, d] \<and> b < B \<and> s < S \<and> d < D)"
  by (auto simp: valid_index_Cons)

lemma bc_index_valid: "valid_index s idx \<Longrightarrow> bc_index s idx = idx"
proof (induction s arbitrary: idx)
  case Nil then show ?case by (simp add: bc_index_def)
next
  case (Cons n s)
  then obtain i rest where idx: "idx = i # rest" "i < n" "valid_index s rest"
    by (auto simp: valid_index_Cons)
  then have "length rest = length s" by (simp add: valid_index_def)
  then show ?case using idx Cons.IH[OF idx(3)] by (auto simp: bc_index_def)
qed

section \<open>Construction and projection: results\<close>

lemma nn_Linear_Inr:
  "nn_Linear w i out = Inr L \<Longrightarrow> int (in_features L) = i \<and> int (out_features L) = out"
  by (auto simp: nn_Linear_def split: if_splits)

lemma Eagle3_init_fields:
  assumes "Qwen3ForCausalLMEagle3_init iw rot cfg backend = Inr m"
  shows "config m = cfg"
    and "int (in_features (fc m)) = (case target_hidden_size cfg of Some t \<Rightarrow> t * 3 | None \<Rightarrow> hidden_size cfg * 3)"
  using assms
  by (auto simp: Qwen3ForCausalLMEagle3_init_def bindE_Inr_iff dest!: nn_Linear_Inr split: option.splits)

lemma linear_forward_Inr_iff:
  "(\<exists>y. linear_forward L x = Inr y) \<longleftrightarrow> shape x \<noteq> [] \<and> last (shape x) = in_features L"
  by (auto simp: linear_forward_def)

lemma Qwen3MLP_init_hidden_size:
  "Qwen3MLP_init iw cfg = Inr f \<Longrightarrow> 0 \<le> hidden_size cfg"
  by (auto simp: Qwen3MLP_init_def bindE_Inr_iff nn_Linear_def split: if_splits)

text \<open>
  Claim C6. Constructing the decoder layer with a backend name other than \<open>sdpa\<close> and
  \<open>flex_attention\<close> fails in the constructor with the ValueError naming the backend, whatever
  the configuration: no layer object exists on which a forward call could fail later. With
  \<open>sdpa\<close> the layer holds the standard attention, with \<open>flex_attention\<close> the block-sparse
  one; and the construction does return a layer when the attention module and the
  feed-forward block can be built.
\<close>

theorem decoder_layer_backend_selection:
  "(attention_backend \<noteq> ''sdpa'' \<and> attention_backend \<noteq> ''flex_attention'' \<longrightarrow>
      Qwen3DecoderLayer_init iw rot cfg attention_backend
        = Inl (ValueError (''Unknown attention backend '' @ attention_backend)))
   \<and> (\<forall>L. Qwen3DecoderLayer_init iw rot cfg ''sdpa'' = Inr L \<longrightarrow>
          (\<exists>a. Qwen3Attention_init iw rot cfg = Inr a \<and> self_attn L = StandardAttention a))
   \<and> (\<forall>L. Qwen3DecoderLayer_init iw rot cfg ''flex_attention'' = Inr L \<longrightarrow>
          (\<exists>a. Qwen3Attention_init iw rot cfg = Inr a \<and> self_attn L = BlockSparseAttention a))
   \<and> (\<forall>a f. Qwen3Attention_init iw rot cfg = Inr a \<and> Qwen3MLP_init iw cfg = Inr f \<longrightarrow>
          (\<exists>L. Qwen3DecoderLayer_init iw rot cfg ''sdpa'' = Inr L \<and> self_attn L = StandardAttention a)
        \<and> (\<exists>L. Qwen3DecoderLayer_init iw rot cfg ''flex_attention'' = Inr L
                \<and> self_attn L = BlockSparseAttention a))"
proof (intro conjI allI impI)
  assume "attention_backend \<noteq> ''sdpa'' \<and> attention_backend \<noteq> ''flex_attention''"
  then show "Qwen3DecoderLayer_init iw rot cfg attention_backend
        = Inl (ValueError (''Unknown attention backend '' @ attention_backend))"
    by (simp add: Qwen3DecoderLayer_init_def)
next
  fix L assume "Qwen3DecoderLayer_init iw rot cfg ''sdpa'' = Inr L"
  then show "\<exists>a. Qwen3Attention_init iw rot cfg = Inr a \<and> self_attn L = StandardAttention a"
    by (auto simp: Qwen3DecoderLayer_init_def bindE_Inr_iff)
next
  fix L assume "Qwen3DecoderLayer_init iw rot cfg ''flex_attention'' = Inr L"
  then show "\<exists>a. Qwen3Attention_init iw rot cfg = Inr a \<and> self_attn L = BlockSparseAttention a"
    by (auto simp: Qwen3DecoderLayer_init_def bindE_Inr_iff)
next
  fix a f assume h: "Qwen3Attention_init iw rot cfg = Inr a \<and> Qwen3MLP_init iw cfg = Inr f"
  then have "0 \<le> hidden_size cfg" by (rule Qwen3MLP_init_hidden_size [OF conjunct2])
  then show "\<exists>L. Qwen3DecoderLayer_init iw rot cfg ''sdpa'' = Inr L \<and> self_attn L = StandardAttention a"
    using h by (simp add: Qwen3DecoderLayer_init_def Qwen3RMSNorm_init_def)
next
  fix a f assume h: "Qwen3Attention_init iw rot cfg = Inr a \<and> Qwen3MLP_init iw cfg = Inr f"
  then have "0 \<le> hidden_size cfg" by (rule Qwen3MLP_init_hidden_size [OF conjunct2])
  then show "\<exists>L. Qwen3DecoderLayer_init iw rot cfg ''flex_attention'' = Inr L
                \<and> self_attn L = BlockSparseAttention a"
    using h by (simp add: Qwen3DecoderLayer_init_def Qwen3RMSNorm_init_def)
qed

lemma example_attention_init:
  "\<exists>a. Qwen3Attention_init example_weights example_rotary example_config = Inr a"
  by (simp add: Qwen3Attention_init_def example_config_def py_floordiv_def nn_Linear_def
      Qwen3RMSNorm_init_def)

lemma example_mlp_init:
  "\<exists>f. Qwen3MLP_init example_weights example_config = Inr f"
  by (simp add: Qwen3MLP_init_def example_config_def nn_Linear_def)

lemma unknown_activation_raises:
  "Qwen3MLP_init example_weights (example_config\<lparr>hidden_act := ''swish''\<rparr>) = Inl AttributeError"
  by (simp add: Qwen3MLP_init_def example_config_def example_weights_def nn_Linear_def)

theorem decoder_layer_backend_selection_witness:
  "Qwen3DecoderLayer_init example_weights example_rotary example_config ''eager''
     = Inl (ValueError ''Unknown attention backend eager'')
   \<and> (\<exists>L a. Qwen3DecoderLayer_init example_weights example_rotary example_config ''sdpa'' = Inr L
          \<and> self_attn L = StandardAttention a)
   \<and> (\<exists>L a. Qwen3DecoderLayer_init example_weights example_rotary example_config ''flex_attention'' = Inr L
          \<and> self_attn L = BlockSparseAttention a)"
proof -
  obtain a where a: "Qwen3Attention_init example_weights example_rotary example_config = Inr a"
    using example_attention_init by blast
  obtain f where f: "Qwen3MLP_init example_weights example_config = Inr f"
    using example_mlp_init by blast
  note t = decoder_layer_backend_selection
    [of "''eager''" example_weights example_rotary example_config]
  have "Qwen3DecoderLayer_init example_weights example_rotary example_config ''eager''
     = Inl (ValueError ''Unknown attention backend eager'')"
    using t by simp
  moreover have "\<exists>L. Qwen3DecoderLayer_init example_weights example_rotary example_config ''sdpa'' = Inr L
          \<and> self_attn L = StandardAttention a"
    using t a f by blast
  moreover have "\<exists>L. Qwen3DecoderLayer_init example_weights example_rotary example_config ''flex_attention'' = Inr L
          \<and> self_attn L = BlockSparseAttention a"
    using t a f by blast
  ultimately show ?thesis by blast
qed

text \<open>
  Claim C10. On a model that was constructed, \<^verbatim>\<open>project_hidden_states\<close> fails its assertion
  exactly when the last axis of the input is not \<open>3 * hidden_size\<close>. When the configuration
  has a \<open>target_hidden_size\<close> other than \<open>hidden_size\<close>, the fusion layer \<open>fc\<close> takes
  inputs of width \<open>3 * target_hidden_size\<close> (applied on its own it accepts them), and
  \<^verbatim>\<open>project_hidden_states\<close> fails its assertion on every input of that width.
\<close>

theorem project_hidden_states_width:
  assumes "Qwen3ForCausalLMEagle3_init iw rot cfg backend = Inr m"
    and "shape x \<noteq> []"
  shows "(project_hidden_states m x = Inl AssertionError
            \<longleftrightarrow> int (last (shape x)) \<noteq> hidden_size cfg * 3)
       \<and> (\<forall>t. target_hidden_size cfg = Some t \<and> t \<noteq> hidden_size cfg \<longrightarrow>
            int (in_features (fc m)) = t * 3
          \<and> (int (last (shape x)) = t * 3 \<longrightarrow>
               (\<exists>y. linear_forward (fc m) x = Inr y)
             \<and> project_hidden_states m x = Inl AssertionError))"
proof -
  note f = Eagle3_init_fields [OF assms(1)]
  have not_assert: "linear_forward (fc m) x \<noteq> Inl AssertionError"
    by (simp add: linear_forward_def)
  have 1: "project_hidden_states m x = Inl AssertionError
            \<longleftrightarrow> int (last (shape x)) \<noteq> hidden_size cfg * 3"
    using assms(2) not_assert by (simp add: project_hidden_states_def f(1))
  have 2: "int (in_features (fc m)) = t * 3
          \<and> (int (last (shape x)) = t * 3 \<longrightarrow>
               (\<exists>y. linear_forward (fc m) x = Inr y)
             \<and> project_hidden_states m x = Inl AssertionError)"
    if "target_hidden_size cfg = Some t \<and> t \<noteq> hidden_size cfg" for t
  proof -
    have w: "int (in_features (fc m)) = t * 3" using f(2) that by simp
    have "(\<exists>y. linear_forward (fc m) x = Inr y) \<and> project_hidden_states m x = Inl AssertionError"
      if l: "int (last (shape x)) = t * 3"
    proof -
      have "last (shape x) = in_features (fc m)" using w l by linarith
      then have a: "\<exists>y. linear_forward (fc m) x = Inr y"
        using assms(2) by (simp add: linear_forward_Inr_iff)
      have "int (last (shape x)) \<noteq> hidden_size cfg * 3" using l that \<open>target_hidden_size cfg = Some t \<and> t \<noteq> hidden_size cfg\<close> by simp
      then show ?thesis using a 1 by simp
    qed
    then show ?thesis using w by blast
  qed
  show ?thesis using 1 2 by blast
qed

lemma example_eagle3_init:
  "\<exists>m. Qwen3ForCausalLMEagle3_init example_weights example_rotary example_config ''sdpa'' = Inr m"
  by (simp add: Qwen3ForCausalLMEagle3_init_def Qwen3DecoderLayer_init_def Qwen3Attention_init_def
      Qwen3MLP_init_def nn_Embedding_def torch_zeros_def
      example_config_def py_floordiv_def nn_Linear_def Qwen3RMSNorm_init_def)

theorem project_hidden_states_width_witness:
  "\<exists>m. Qwen3ForCausalLMEagle3_init example_weights example_rotary example_config ''sdpa'' = Inr m
     \<and> in_features (fc m) = 9
     \<and> (\<exists>y. linear_forward (fc m) (Tensor [1, 1, 9] (\<lambda>_. 0)) = Inr y)
     \<and> project_hidden_states m (Tensor [1, 1, 9] (\<lambda>_. 0)) = Inl AssertionError
     \<and> project_hidden_states m (Tensor [1, 1, 6] (\<lambda>_. 0)) \<noteq> Inl AssertionError"
proof -
  obtain m where m: "Qwen3ForCausalLMEagle3_init example_weights example_rotary example_config ''sdpa'' = Inr m"
    using example_eagle3_init by blast
  have t: "target_hidden_size example_config = Some 3 \<and> 3 \<noteq> hidden_size example_config"
    and hs: "hidden_size example_config = 2"
    by (simp_all add: example_config_def)
  have a: "in_features (fc m) = 9
     \<and> (\<exists>y. linear_forward (fc m) (Tensor [1, 1, 9] (\<lambda>_. 0)) = Inr y)
     \<and> project_hidden_states m (Tensor [1, 1, 9] (\<lambda>_. 0)) = Inl AssertionError"
    using project_hidden_states_width [OF m, of "Tensor [1, 1, 9] (\<lambda>_. 0)"] t by auto
  have b: "project_hidden_states m (Tensor [1, 1, 6] (\<lambda>_. 0)) \<noteq> Inl AssertionError"
    using project_hidden_states_width [OF m, of "Tensor [1, 1, 6] (\<lambda>_. 0)"] hs by simp
  show ?thesis using m a b by blast
qed

text \<open>
  Claim C7. With \<open>ttt_length\<close> in its domain (at least 1), the cache handed to the decoder
  layer is null exactly when \<open>ttt_length = 1\<close>, and for \<open>ttt_length > 1\<close>, and only then, it is
  an object that did not exist before the call, holding two empty lists; no object that
  existed before is touched.
\<close>

theorem forward_cache_hidden_fresh:
  assumes "heap_ok h" and "1 \<le> ttt_length"
    and "forward_cache_hidden ttt_length h = (c, h')"
  shows "(c = None \<longleftrightarrow> ttt_length = 1)
       \<and> ((\<exists>a. c = Some a \<and> a \<notin> dom (cells h) \<and> cells h' a = Some ([], [])) \<longleftrightarrow> 1 < ttt_length)
       \<and> (\<forall>b. b \<in> dom (cells h) \<longrightarrow> cells h' b = cells h b)
       \<and> heap_ok h'"
proof (cases "ttt_length = 1")
  case True
  then show ?thesis using assms by (auto simp: forward_cache_hidden_def)
next
  case False
  have fresh: "next_free h \<notin> dom (cells h)"
    using assms(1) unfolding heap_ok_def by (meson less_irrefl)
  have c: "c = Some (next_free h)"
    and h': "h' = h\<lparr>cells := (cells h)(next_free h \<mapsto> ([], [])), next_free := Suc (next_free h)\<rparr>"
    using assms(3) False by (auto simp: forward_cache_hidden_def new_cache_def)
  have ok: "heap_ok h'"
    using assms(1) unfolding heap_ok_def h' by (auto simp: less_Suc_eq)
  have keep: "\<forall>b. b \<in> dom (cells h) \<longrightarrow> cells h' b = cells h b"
    using fresh unfolding h' by auto
  show ?thesis using False assms(2) c fresh ok keep unfolding h' by auto
qed

theorem forward_cache_hidden_fresh_witness:
  "forward_cache_hidden 1 empty_heap = (None, empty_heap)
   \<and> fst (forward_cache_hidden 3 empty_heap) = Some 0
   \<and> cells (snd (forward_cache_hidden 3 empty_heap)) 0 = Some ([], [])"
proof -
  have ok: "heap_ok empty_heap" by (simp add: heap_ok_def empty_heap_def)
  have a: "forward_cache_hidden 1 empty_heap = (None, empty_heap)"
    by (simp add: forward_cache_hidden_def)
  obtain c h' where e: "forward_cache_hidden 3 empty_heap = (c, h')"
    by (cases "forward_cache_hidden 3 empty_heap")
  have c0: "c = Some 0"
    using e by (auto simp: forward_cache_hidden_def new_cache_def empty_heap_def)
  have "\<exists>a. c = Some a \<and> a \<notin> dom (cells empty_heap) \<and> cells h' a = Some ([], [])"
    using forward_cache_hidden_fresh [OF ok _ e] by simp
  then have "cells h' 0 = Some ([], [])" using c0 by auto
  then show ?thesis using a e c0 by simp
qed

section \<open>The JSONL sampler: results\<close>

lemma list_setitem_ok:
  "1 \<le> j \<Longrightarrow> j \<le> int (length xs) \<Longrightarrow> list_setitem xs (j - 1) v = Inr (xs[nat (j - 1) := v])"
  by (simp add: list_setitem_def Let_def)

lemma reservoir_loop_inv:
  assumes "randint_ok lib"
    and "int (length res) = max 0 (min sample_size vs)"
    and "0 \<le> vs"
    and "set res \<subseteq> S"
    and "distinct (map fst res)"
    and "distinct (map fst ps)"
    and "fst ` set res \<inter> fst ` set ps = {}"
  shows "\<exists>res' g'. reservoir_loop lib is_json validate sample_size ps (res, vs, ts, g)
            = Inr (res', vs + int (length (filter (\<lambda>p. \<not> (validate \<and> \<not> is_json (snd p))) ps)),
                   ts + int (length ps), g')
          \<and> int (length res') = max 0 (min sample_size
                 (vs + int (length (filter (\<lambda>p. \<not> (validate \<and> \<not> is_json (snd p))) ps))))
          \<and> set res' \<subseteq> S \<union> set (filter (\<lambda>p. \<not> (validate \<and> \<not> is_json (snd p))) ps)
          \<and> distinct (map fst res')"
  using assms
proof (induction ps arbitrary: res vs ts g S)
  case Nil
  then show ?case by simp
next
  case (Cons p ps)
  obtain pos raw where p: "p = (pos, raw)" by (cases p)
  have dps: "distinct (map fst ps)" and pos_ps: "pos \<notin> fst ` set ps"
    and pos_res: "pos \<notin> fst ` set res" and res_ps: "fst ` set res \<inter> fst ` set ps = {}"
    using Cons.prems(6,7) p by auto
  show ?case
  proof (cases "validate \<and> \<not> is_json raw")
    case True
    from Cons.IH[OF Cons.prems(1,2,3,4,5) dps res_ps, of "ts + 1" g]
    show ?thesis using True p by (auto simp: add.assoc)
  next
    case False
    show ?thesis
    proof (cases "int (length res) < sample_size")
      case lt: True
      have 1: "int (length (res @ [(pos, raw)])) = max 0 (min sample_size (vs + 1))"
        using lt Cons.prems(2,3) by auto
      have 2: "set (res @ [(pos, raw)]) \<subseteq> insert p S" using Cons.prems(4) p by auto
      have 3: "distinct (map fst (res @ [(pos, raw)]))" using Cons.prems(5) pos_res by auto
      have 4: "fst ` set (res @ [(pos, raw)]) \<inter> fst ` set ps = {}"
        using res_ps pos_ps by auto
      from Cons.IH[OF Cons.prems(1) 1 _ 2 3 dps 4, of "ts + 1" g] Cons.prems(3)
      show ?thesis using False lt p by (auto simp: add.assoc)
    next
      case ge: False
      obtain j g' where r: "randint lib g 1 (vs + 1) = (j, g')" by (cases "randint lib g 1 (vs + 1)")
      have j: "1 \<le> j" "j \<le> vs + 1"
        using Cons.prems(1,3) r unfolding randint_ok_def
        by (metis add.commute add_increasing2 fst_conv order_refl)+
      show ?thesis
      proof (cases "j \<le> sample_size")
        case repl: True
        have len: "int (length res) = sample_size" using ge Cons.prems(2,3) repl j by auto
        have set_ok: "list_setitem res (j - 1) (pos, raw) = Inr (res[nat (j - 1) := (pos, raw)])"
          using list_setitem_ok j repl len by auto
        let ?r = "res[nat (j - 1) := (pos, raw)]"
        have 1: "int (length ?r) = max 0 (min sample_size (vs + 1))"
          using len Cons.prems(2,3) by auto
        have 2: "set ?r \<subseteq> insert p S"
          using Cons.prems(4) p set_update_subset_insert[of res "nat (j - 1)" "(pos, raw)"] by auto
        have idx: "nat (j - 1) < length res" using len j repl by auto
        have "map fst ?r = (map fst res)[nat (j - 1) := pos]" by (simp add: map_update)
        then have 3: "distinct (map fst ?r)"
          using Cons.prems(5) pos_res idx by (simp add: distinct_list_update)
        have "fst ` set ?r \<subseteq> insert pos (fst ` set res)"
          using set_update_subset_insert[of res "nat (j - 1)" "(pos, raw)"] by auto
        then have 4: "fst ` set ?r \<inter> fst ` set ps = {}" using res_ps pos_ps by auto
        from Cons.IH[OF Cons.prems(1) 1 _ 2 3 dps 4, of "ts + 1" g'] Cons.prems(3)
        show ?thesis using False ge p r repl set_ok by (auto simp: add.assoc)
      next
        case keep: False
        have 1: "int (length res) = max 0 (min sample_size (vs + 1))"
          using ge Cons.prems(2,3) by auto
        have 2: "set res \<subseteq> insert p S" using Cons.prems(4) by auto
        from Cons.IH[OF Cons.prems(1) 1 _ 2 Cons.prems(5) dps res_ps, of "ts + 1" g'] Cons.prems(3)
        show ?thesis using False ge p r keep by (auto simp: add.assoc)
      qed
    qed
  qed
qed

lemma subseq_set_subset: "subseq xs ys \<Longrightarrow> set xs \<subseteq> set ys"
proof
  fix x assume "subseq xs ys" and "x \<in> set xs"
  then obtain y where "y \<in> set ys" and "x = y" by (rule list_emb_set)
  then show "x \<in> set ys" by simp
qed

lemma map_snd_filter_snd:
  "map snd (filter (\<lambda>p. P (snd p)) ps) = filter P (map snd ps)"
  by (induction ps) auto

lemma valid_lines_iter:
  "map snd (filter (\<lambda>p. \<not> (validate \<and> \<not> is_json (snd p))) (iter_lines file_lines))
     = valid_lines is_json validate file_lines"
  unfolding iter_lines_def valid_lines_def
  using map_snd_filter_snd[of "\<lambda>raw. \<not> (validate \<and> \<not> is_json raw)" "enumerate 1 file_lines"]
  by (simp only: map_snd_enumerate)

lemma sort_key_fst_filter:
  assumes "distinct (map fst res)" and "set res \<subseteq> set all"
    and "sorted (map fst all)" and "distinct (map fst all)"
  shows "sort_key fst res = filter (\<lambda>p. p \<in> set res) all"
proof -
  let ?A = "sort_key fst res" and ?B = "filter (\<lambda>p. p \<in> set res) all"
  have inj: "inj_on fst (set all)" using assms(4) by (simp add: distinct_map)
  have dA: "distinct (map fst ?A)"
    using assms(1,2) inj by (auto simp: distinct_map intro: inj_on_subset)
  have sA: "sorted (map fst ?A)" by (rule sorted_sort_key)
  have dB: "distinct (map fst ?B)" using assms(4) by (rule distinct_map_filter)
  have sB: "sorted (map fst ?B)" using assms(3) by (rule sorted_filter)
  have "set (map fst ?A) = set (map fst ?B)" using assms(2) by auto
  then have "map fst ?A = map fst ?B"
    using sA sB dA dB by (metis sorted_distinct_set_unique)
  moreover have "inj_on fst (set ?A \<union> set ?B)"
    using inj assms(2) by (auto intro: inj_on_subset)
  ultimately show ?thesis by (rule map_inj_on)
qed

text \<open>
  Claim C9. Whatever the file, the size and the seed, \<^verbatim>\<open>sample_fixed_size\<close> returns after
  its one pass over the lines, having counted them; it writes \<open>min size valid\<close> lines
  (none when \<open>size\<close> is negative), where \<open>valid\<close> counts the lines not skipped; what it
  writes is a subsequence of the input's lines, so every written line is a line of the
  input and the written lines keep the input's order; and the result does not depend on the
  generator's state at entry, so two runs on the same input with the same seed write the
  same output.
\<close>

theorem sample_fixed_size_correct:
  assumes "randint_ok lib"
  shows "\<exists>out g'.
           sample_fixed_size lib is_json g file_lines sample_size seed validate
             = Inr (out, (int (length file_lines),
                          int (length (valid_lines is_json validate file_lines))), g')
         \<and> length out = nat (min sample_size (int (length (valid_lines is_json validate file_lines))))
         \<and> set out \<subseteq> set file_lines
         \<and> subseq out (valid_lines is_json validate file_lines)
         \<and> subseq out file_lines
         \<and> (\<forall>g2. sample_fixed_size lib is_json g2 file_lines sample_size seed validate
                  = sample_fixed_size lib is_json g file_lines sample_size seed validate)"
proof -
  let ?all = "iter_lines file_lines"
  let ?V = "\<lambda>p::nat \<times> string. \<not> (validate \<and> \<not> is_json (snd p))"
  have dall: "distinct (map fst ?all)" and sall: "sorted (map fst ?all)"
    unfolding iter_lines_def by (simp_all only: map_fst_enumerate sorted_upt distinct_upt)
  have nvalid: "length (filter ?V ?all) = length (valid_lines is_json validate file_lines)"
    by (metis valid_lines_iter length_map)
  obtain res g' where
    run: "reservoir_loop lib is_json validate sample_size ?all ([], 0, 0, seed_fn lib seed)
            = Inr (res, int (length (filter ?V ?all)), int (length ?all), g')"
    and len: "int (length res) = max 0 (min sample_size (int (length (filter ?V ?all))))"
    and sub: "set res \<subseteq> set (filter ?V ?all)"
    and dres: "distinct (map fst res)"
    using reservoir_loop_inv[OF assms, of "[]" sample_size 0 "{}" ?all is_json validate 0 "seed_fn lib seed"] dall
    by auto
  let ?out = "map snd (sort_key fst res)"
  have sorted_eq: "sort_key fst res = filter (\<lambda>p. p \<in> set res) (filter ?V ?all)"
    using dres sub sall dall
    by (intro sort_key_fst_filter) (auto simp: sorted_filter distinct_map_filter)
  have "subseq (sort_key fst res) (filter ?V ?all)" unfolding sorted_eq by (rule subseq_filter_left)
  then have "subseq ?out (map snd (filter ?V ?all))" by (rule subseq_map)
  moreover have "map snd (filter ?V ?all) = valid_lines is_json validate file_lines"
    by (rule valid_lines_iter)
  ultimately have sv: "subseq ?out (valid_lines is_json validate file_lines)" by simp
  have "subseq (valid_lines is_json validate file_lines) file_lines"
    by (simp add: valid_lines_def)
  with sv have sf: "subseq ?out file_lines" by (rule subseq_order.order_trans)
  then have so: "set ?out \<subseteq> set file_lines" by (rule subseq_set_subset)
  have ln: "length ?out = nat (min sample_size (int (length (valid_lines is_json validate file_lines))))"
    using len nvalid by simp
  have res: "sample_fixed_size lib is_json g file_lines sample_size seed validate
             = Inr (?out, (int (length file_lines),
                          int (length (valid_lines is_json validate file_lines))), g')"
    using run nvalid by (simp add: sample_fixed_size_def iter_lines_def)
  have det: "\<forall>g2. sample_fixed_size lib is_json g2 file_lines sample_size seed validate
                  = sample_fixed_size lib is_json g file_lines sample_size seed validate"
    by (simp add: sample_fixed_size_def)
  show ?thesis using res ln so sv sf det by blast
qed

lemma example_random_ok: "randint_ok example_random"
  unfolding randint_ok_def example_random_def
proof (intro allI impI)
  fix g :: nat and a b :: int
  assume "a \<le> b"
  then have "0 < nat (b - a + 1)" by simp
  then have "g mod nat (b - a + 1) < nat (b - a + 1)" by (rule mod_less_divisor)
  then show "a \<le> fst (randint \<lparr>seed_fn = \<lambda>s. nat \<bar>s\<bar>, randint = \<lambda>g a b. (a + int (g mod nat (b - a + 1)), Suc g)\<rparr> g a b)
      \<and> fst (randint \<lparr>seed_fn = \<lambda>s. nat \<bar>s\<bar>, randint = \<lambda>g a b. (a + int (g mod nat (b - a + 1)), Suc g)\<rparr> g a b) \<le> b"
    by simp
qed

theorem sample_fixed_size_correct_witness:
  "sample_fixed_size example_random (\<lambda>_. True) 0 [''a'', ''b'', ''c'', ''d'', ''e''] 2 42 False
     = Inr ([''b'', ''c''], (5, 5), 45)
   \<and> (\<exists>out g'. sample_fixed_size example_random (\<lambda>r. r \<noteq> ''b'') 7 [''a'', ''b'', ''c''] 5 42 True
          = Inr (out, (3, 2), g') \<and> length out = 2 \<and> subseq out [''a'', ''b'', ''c''])"
proof -
  have a: "sample_fixed_size example_random (\<lambda>_. True) 0 [''a'', ''b'', ''c'', ''d'', ''e''] 2 42 False
     = Inr ([''b'', ''c''], (5, 5), 45)"
    by code_simp
  have v: "valid_lines (\<lambda>r. r \<noteq> ''b'') True [''a'', ''b'', ''c''] = [''a'', ''c'']"
    by (simp add: valid_lines_def)
  have b: "\<exists>out g'. sample_fixed_size example_random (\<lambda>r. r \<noteq> ''b'') 7 [''a'', ''b'', ''c''] 5 42 True
          = Inr (out, (3, 2), g') \<and> length out = 2 \<and> subseq out [''a'', ''b'', ''c'']"
    using sample_fixed_size_correct [OF example_random_ok, of "\<lambda>r. r \<noteq> ''b''" 7 "[''a'', ''b'', ''c'']" 5 42 True]
    unfolding v by auto
  show ?thesis using a b by blast
qed

section \<open>Rotary position embedding: results\<close>

lemma mod_second_half: "\<not> j < F \<Longrightarrow> j < 2 * F \<Longrightarrow> j mod F = j - (F::nat)"
  by (simp add: le_mod_geq)

lemma rotary_forward_ok:
  assumes "shape position_ids = [P, S]"
  shows "\<exists>c s. Qwen3RotaryEmbedding_forward rot position_ids = Inr (c, s)
     \<and> shape c = [P, S, 2 * length (inv_freq rot)] \<and> shape s = [P, S, 2 * length (inv_freq rot)]
     \<and> (\<forall>p t j. p < P \<and> t < S \<and> j < 2 * length (inv_freq rot) \<longrightarrow>
          entry c [p, t, j] = cos (inv_freq rot ! (j mod length (inv_freq rot)) * real_of_int (entry position_ids [p, t])) * attention_scaling rot
        \<and> entry s [p, t, j] = sin (inv_freq rot ! (j mod length (inv_freq rot)) * real_of_int (entry position_ids [p, t])) * attention_scaling rot)"
  using assms
  by (auto simp add: Qwen3RotaryEmbedding_forward_def rank_def unsqueeze_def matmul_def tensor_map_def Let_def
    transpose_dims_def swap_def cat_last_def bc_index_def mod_second_half)

lemma bc_index_same4:
  "b < B \<Longrightarrow> h < H \<Longrightarrow> t < S \<Longrightarrow> j < D \<Longrightarrow> bc_index [B, H, S, D] [b, h, t, j] = [b, h, t, j]"
  by (simp add: bc_index_valid valid_index4)

lemma bc_index_head1:
  "t < S \<Longrightarrow> j < D
     \<Longrightarrow> bc_index [P, Suc 0, S, D] [b, h, t, j] = [if P = Suc 0 then 0 else b, 0, t, j]"
  by (auto simp: bc_index_def)

lemma broadcast_head1:
  "P = B \<or> P = Suc 0 \<Longrightarrow> broadcast_shapes [B, H, S, D] [P, Suc 0, S, D] = Some [B, H, S, D]"
  by (auto simp: broadcast_shapes_def)

lemma apply_rotary_ok:
  assumes "shape q = [B, H, S, 2 * F]" and "shape k = [B, Hk, S, 2 * F]"
    and "shape c = [P, S, 2 * F]" and "shape s = [P, S, 2 * F]" and "P = B \<or> P = 1"
  shows "\<exists>q' k'. apply_rotary_pos_emb q k c s = Inr (q', k')
     \<and> shape q' = [B, H, S, 2 * F] \<and> shape k' = [B, Hk, S, 2 * F]
     \<and> (\<forall>b h t j. b < B \<and> h < H \<and> t < S \<and> j < 2 * F \<longrightarrow>
          entry q' [b, h, t, j] =
            entry q [b, h, t, j] * entry c [if P = 1 then 0 else b, t, j]
            + (if j < F then - entry q [b, h, t, j + F] else entry q [b, h, t, j - F])
              * entry s [if P = 1 then 0 else b, t, j])
     \<and> (\<forall>b h t j. b < B \<and> h < Hk \<and> t < S \<and> j < 2 * F \<longrightarrow>
          entry k' [b, h, t, j] =
            entry k [b, h, t, j] * entry c [if P = 1 then 0 else b, t, j]
            + (if j < F then - entry k [b, h, t, j + F] else entry k [b, h, t, j - F])
              * entry s [if P = 1 then 0 else b, t, j])"
  using assms
  apply (simp add: apply_rotary_pos_emb_def rotate_half_def rank_def unsqueeze_def binop_def tensor_map_def Let_def
    slice_last_def cat_last_def broadcast_head1 bc_index_same4 bc_index_head1)
  done

lemma cos_sin_scaled: "(cos th * a) * (cos th * a) + (sin th * a) * (sin th * a) = (a::real)\<^sup>2"
proof -
  have "(x * a) * (x * a) + (y * a) * (y * a) = (x\<^sup>2 + y\<^sup>2) * a\<^sup>2" for x y :: real
    by (simp add: power2_eq_square algebra_simps)
  then have "(cos th * a) * (cos th * a) + (sin th * a) * (sin th * a) = ((cos th)\<^sup>2 + (sin th)\<^sup>2) * a\<^sup>2"
    by blast
  then show ?thesis by simp
qed

lemma rotate_then_unrotate_entries:
  assumes "shape q = [B, H, S, 2 * length (inv_freq rot)]"
    and "shape k = [B, Hk, S, 2 * length (inv_freq rot)]"
    and "shape position_ids = [P, S]" and "P = B \<or> P = 1"
  shows "\<exists>q2 k2. rotate_then_unrotate rot position_ids q k = Inr (q2, k2)
     \<and> shape q2 = shape q \<and> shape k2 = shape k
     \<and> (\<forall>b h t j. b < B \<and> h < H \<and> t < S \<and> j < 2 * length (inv_freq rot) \<longrightarrow>
            entry q2 [b, h, t, j] = (attention_scaling rot)\<^sup>2 * entry q [b, h, t, j])
     \<and> (\<forall>b h t j. b < B \<and> h < Hk \<and> t < S \<and> j < 2 * length (inv_freq rot) \<longrightarrow>
            entry k2 [b, h, t, j] = (attention_scaling rot)\<^sup>2 * entry k [b, h, t, j])"
proof -
  let ?F = "length (inv_freq rot)" and ?a = "attention_scaling rot"
  let ?th = "\<lambda>p t j. inv_freq rot ! (j mod ?F) * real_of_int (entry position_ids [p, t])"
  obtain c s where rf: "Qwen3RotaryEmbedding_forward rot position_ids = Inr (c, s)"
    and sc: "shape c = [P, S, 2 * ?F]" and ss: "shape s = [P, S, 2 * ?F]"
    and cs: "\<And>p t j. p < P \<Longrightarrow> t < S \<Longrightarrow> j < 2 * ?F \<Longrightarrow>
               entry c [p, t, j] = cos (?th p t j) * ?a \<and> entry s [p, t, j] = sin (?th p t j) * ?a"
    using rotary_forward_ok[OF assms(3), of rot] by blast
  obtain q' k' where r1: "apply_rotary_pos_emb q k c s = Inr (q', k')"
    and sq': "shape q' = [B, H, S, 2 * ?F]" and sk': "shape k' = [B, Hk, S, 2 * ?F]"
    and eq': "\<And>b h t j. b < B \<Longrightarrow> h < H \<Longrightarrow> t < S \<Longrightarrow> j < 2 * ?F \<Longrightarrow>
          entry q' [b, h, t, j] =
            entry q [b, h, t, j] * entry c [if P = 1 then 0 else b, t, j]
            + (if j < ?F then - entry q [b, h, t, j + ?F] else entry q [b, h, t, j - ?F])
              * entry s [if P = 1 then 0 else b, t, j]"
    and ek': "\<And>b h t j. b < B \<Longrightarrow> h < Hk \<Longrightarrow> t < S \<Longrightarrow> j < 2 * ?F \<Longrightarrow>
          entry k' [b, h, t, j] =
            entry k [b, h, t, j] * entry c [if P = 1 then 0 else b, t, j]
            + (if j < ?F then - entry k [b, h, t, j + ?F] else entry k [b, h, t, j - ?F])
              * entry s [if P = 1 then 0 else b, t, j]"
    using apply_rotary_ok[OF assms(1,2) sc ss assms(4)] by blast
  let ?ns = "tensor_map uminus s"
  have sns: "shape ?ns = [P, S, 2 * ?F]" by (simp add: tensor_map_def ss)
  obtain q2 k2 where r2: "apply_rotary_pos_emb q' k' c ?ns = Inr (q2, k2)"
    and sq2: "shape q2 = [B, H, S, 2 * ?F]" and sk2: "shape k2 = [B, Hk, S, 2 * ?F]"
    and eq2: "\<And>b h t j. b < B \<Longrightarrow> h < H \<Longrightarrow> t < S \<Longrightarrow> j < 2 * ?F \<Longrightarrow>
          entry q2 [b, h, t, j] =
            entry q' [b, h, t, j] * entry c [if P = 1 then 0 else b, t, j]
            + (if j < ?F then - entry q' [b, h, t, j + ?F] else entry q' [b, h, t, j - ?F])
              * entry ?ns [if P = 1 then 0 else b, t, j]"
    and ek2: "\<And>b h t j. b < B \<Longrightarrow> h < Hk \<Longrightarrow> t < S \<Longrightarrow> j < 2 * ?F \<Longrightarrow>
          entry k2 [b, h, t, j] =
            entry k' [b, h, t, j] * entry c [if P = 1 then 0 else b, t, j]
            + (if j < ?F then - entry k' [b, h, t, j + ?F] else entry k' [b, h, t, j - ?F])
              * entry ?ns [if P = 1 then 0 else b, t, j]"
    using apply_rotary_ok[OF sq' sk' sc sns assms(4)] by blast
  have run: "rotate_then_unrotate rot position_ids q k = Inr (q2, k2)"
    by (simp add: rotate_then_unrotate_def rf r1 r2)
  have core: "entry zz [b, h, t, j] = ?a\<^sup>2 * entry z [b, h, t, j]"
    if z': "\<And>j. j < 2 * ?F \<Longrightarrow> entry z' [b, h, t, j] =
            entry z [b, h, t, j] * entry c [if P = 1 then 0 else b, t, j]
            + (if j < ?F then - entry z [b, h, t, j + ?F] else entry z [b, h, t, j - ?F])
              * entry s [if P = 1 then 0 else b, t, j]"
      and zz: "\<And>j. j < 2 * ?F \<Longrightarrow> entry zz [b, h, t, j] =
            entry z' [b, h, t, j] * entry c [if P = 1 then 0 else b, t, j]
            + (if j < ?F then - entry z' [b, h, t, j + ?F] else entry z' [b, h, t, j - ?F])
              * entry ?ns [if P = 1 then 0 else b, t, j]"
      and b: "b < B" and t: "t < S" and j: "j < 2 * ?F"
    for z z' zz :: "real tensor" and b h t j
  proof -
    let ?p = "if P = 1 then 0 else b"
    have p: "?p < P" using assms(4) b by auto
    have ns: "entry ?ns [?p, t, i] = - entry s [?p, t, i]" for i by (simp add: tensor_map_def)
    show ?thesis
    proof (cases "j < ?F")
      case True
      then have j2: "j + ?F < 2 * ?F" by simp
      have m: "(j + ?F) mod ?F = j mod ?F" by simp
      have cj: "entry c [?p, t, j] = cos (?th ?p t j) * ?a" and sj: "entry s [?p, t, j] = sin (?th ?p t j) * ?a"
        using cs[OF p t j] by blast+
      have cj2: "entry c [?p, t, j + ?F] = cos (?th ?p t j) * ?a"
        and sj2: "entry s [?p, t, j + ?F] = sin (?th ?p t j) * ?a"
        using cs[OF p t j2] unfolding m by blast+
      have "entry zz [b, h, t, j] =
          entry z [b, h, t, j] * ((cos (?th ?p t j) * ?a) * (cos (?th ?p t j) * ?a)
                                  + (sin (?th ?p t j) * ?a) * (sin (?th ?p t j) * ?a))"
        unfolding zz[OF j] z'[OF j] z'[OF j2] ns cj sj cj2 sj2 using True
        by (simp add: algebra_simps)
      then show ?thesis unfolding cos_sin_scaled by (simp add: mult.commute)
    next
      case False
      then have j2: "j - ?F < 2 * ?F" and lt: "j - ?F < ?F" using j by auto
      have m: "(j - ?F) mod ?F = j mod ?F" using False j by (simp add: le_mod_geq)
      have cj: "entry c [?p, t, j] = cos (?th ?p t j) * ?a" and sj: "entry s [?p, t, j] = sin (?th ?p t j) * ?a"
        using cs[OF p t j] by blast+
      have cj2: "entry c [?p, t, j - ?F] = cos (?th ?p t j) * ?a"
        and sj2: "entry s [?p, t, j - ?F] = sin (?th ?p t j) * ?a"
        using cs[OF p t j2] unfolding m by blast+
      have jback: "j - ?F + ?F = j" using False by simp
      have "entry zz [b, h, t, j] =
          entry z [b, h, t, j] * ((cos (?th ?p t j) * ?a) * (cos (?th ?p t j) * ?a)
                                  + (sin (?th ?p t j) * ?a) * (sin (?th ?p t j) * ?a))"
        unfolding zz[OF j] z'[OF j] z'[OF j2] ns cj sj cj2 sj2 using False lt jback
        by (simp add: algebra_simps)
      then show ?thesis unfolding cos_sin_scaled by (simp add: mult.commute)
    qed
  qed
  have "\<And>b h t j. b < B \<Longrightarrow> h < H \<Longrightarrow> t < S \<Longrightarrow> j < 2 * ?F \<Longrightarrow>
            entry q2 [b, h, t, j] = ?a\<^sup>2 * entry q [b, h, t, j]"
    by (rule core[where z=q and z'=q' and zz=q2]) (simp_all add: eq' eq2)
  moreover have "\<And>b h t j. b < B \<Longrightarrow> h < Hk \<Longrightarrow> t < S \<Longrightarrow> j < 2 * ?F \<Longrightarrow>
            entry k2 [b, h, t, j] = ?a\<^sup>2 * entry k [b, h, t, j]"
    by (rule core[where z=k and z'=k' and zz=k2]) (simp_all add: ek' ek2)
  ultimately show ?thesis using run sq2 sk2 assms(1,2) by auto
qed

text \<open>
  Claim C8, as the code has it. For a tensor whose last axis is twice the length of
  \<open>inv_freq\<close> and position ids of shape (batch, sequence) or (1, sequence), rotating with
  the encoder's tables and rotating again with the sine negated gives the input scaled by
  \<open>attention_scaling\<^sup>2\<close>: the encoder multiplies both tables by \<open>attention_scaling\<close>. The
  input itself comes back exactly when that factor is 1, as for \<open>attention_scaling = 1\<close>.
\<close>

theorem rotary_round_trip:
  assumes "shape q = [B, H, S, 2 * length (inv_freq rot)]"
    and "shape k = [B, Hk, S, 2 * length (inv_freq rot)]"
    and "shape position_ids = [P, S]" and "P = B \<or> P = 1"
  shows "\<exists>q2 k2. rotate_then_unrotate rot position_ids q k = Inr (q2, k2)
     \<and> tensor_eq q2 (tensor_map (\<lambda>x. (attention_scaling rot)\<^sup>2 * x) q)
     \<and> tensor_eq k2 (tensor_map (\<lambda>x. (attention_scaling rot)\<^sup>2 * x) k)
     \<and> ((attention_scaling rot)\<^sup>2 = 1 \<longrightarrow> tensor_eq q2 q \<and> tensor_eq k2 k)"
proof -
  obtain q2 k2 where run: "rotate_then_unrotate rot position_ids q k = Inr (q2, k2)"
    and sh: "shape q2 = shape q" "shape k2 = shape k"
    and eq: "\<And>b h t j. b < B \<Longrightarrow> h < H \<Longrightarrow> t < S \<Longrightarrow> j < 2 * length (inv_freq rot) \<Longrightarrow>
            entry q2 [b, h, t, j] = (attention_scaling rot)\<^sup>2 * entry q [b, h, t, j]"
    and ek: "\<And>b h t j. b < B \<Longrightarrow> h < Hk \<Longrightarrow> t < S \<Longrightarrow> j < 2 * length (inv_freq rot) \<Longrightarrow>
            entry k2 [b, h, t, j] = (attention_scaling rot)\<^sup>2 * entry k [b, h, t, j]"
    using rotate_then_unrotate_entries[OF assms] by blast
  have tq: "tensor_eq q2 (tensor_map (\<lambda>x. (attention_scaling rot)\<^sup>2 * x) q)"
    unfolding tensor_eq_def using eq by (auto simp: sh assms(1) tensor_map_def valid_index4)
  have tk: "tensor_eq k2 (tensor_map (\<lambda>x. (attention_scaling rot)\<^sup>2 * x) k)"
    unfolding tensor_eq_def using ek by (auto simp: sh assms(2) tensor_map_def valid_index4)
  have one: "tensor_eq q2 q \<and> tensor_eq k2 k" if "(attention_scaling rot)\<^sup>2 = 1"
    using tq tk that by (simp add: tensor_eq_def tensor_map_def)
  show ?thesis using run tq tk one by blast
qed

text \<open>
  With \<open>attention_scaling = 2\<close> the round trip returns four times the input: the property
  does not hold for every scaling configuration.
\<close>

theorem rotary_round_trip_counterexample:
  "(case rotate_then_unrotate scaled_rotary example_positions example_heads example_heads of
      Inl e \<Rightarrow> False
    | Inr (q2, k2) \<Rightarrow> entry q2 [0, 0, 0, 0] = 4 \<and> entry example_heads [0, 0, 0, 0] = 1
                      \<and> \<not> tensor_eq q2 example_heads)"
proof -
  have sh: "shape example_heads = [1, 1, 1, 2 * length (inv_freq scaled_rotary)]"
    and sp: "shape example_positions = [1, 1]"
    by (simp_all add: scaled_rotary_def example_heads_def example_positions_def)
  obtain q2 k2 where
    run: "rotate_then_unrotate scaled_rotary example_positions example_heads example_heads = Inr (q2, k2)"
    and eq: "\<And>b h t j. b < 1 \<Longrightarrow> h < 1 \<Longrightarrow> t < 1 \<Longrightarrow> j < 2 * length (inv_freq scaled_rotary) \<Longrightarrow>
            entry q2 [b, h, t, j] = (attention_scaling scaled_rotary)\<^sup>2 * entry example_heads [b, h, t, j]"
    using rotate_then_unrotate_entries[OF sh sh sp] by auto
  have x0: "entry example_heads [0, 0, 0, 0] = 1" by (simp add: example_heads_def)
  have q0: "entry q2 [0, 0, 0, 0] = 4"
    using eq[of 0 0 0 0] x0 by (simp add: scaled_rotary_def)
  have "\<not> tensor_eq q2 example_heads"
  proof
    assume "tensor_eq q2 example_heads"
    then have "entry q2 [0, 0, 0, 0] = entry example_heads [0, 0, 0, 0]"
      by (simp add: tensor_eq_def example_heads_def valid_index4)
    then show False using q0 x0 by simp
  qed
  then show ?thesis using run q0 x0 by simp
qed

theorem rotary_round_trip_witness:
  "\<exists>q2 k2. rotate_then_unrotate example_rotary example_positions example_heads example_heads = Inr (q2, k2)
     \<and> tensor_eq q2 example_heads \<and> tensor_eq k2 example_heads"
proof -
  have "shape example_heads = [1, 1, 1, 2 * length (inv_freq example_rotary)]"
    and "shape example_positions = [1, 1]" and "(attention_scaling example_rotary)\<^sup>2 = 1"
    by (simp_all add: example_rotary_def example_heads_def example_positions_def)
  then show ?thesis
    using rotary_round_trip [of example_heads 1 1 1 example_rotary example_heads 1 example_positions 1]
    by blast
qed

section \<open>The attention layer: results\<close>

lemma project_heads_shape:
  "project_heads a hs = Inr (b, ql, q, k, v) \<Longrightarrow> \<exists>n. shape hs = [b, ql, n]"
  by (auto simp: project_heads_def bindE_Inr_iff split: list.splits)

lemma matmul_Inr_inner:
  "matmul x y = Inr r \<Longrightarrow> last (shape x) = shape y ! (length (shape y) - 2)"
  by (auto simp: matmul_def Let_def rank_def split: if_splits option.splits)

lemma index_last_Inr: "index_last k w = Inr r \<Longrightarrow> shape w \<noteq> [] \<and> k < last (shape w)"
  by (auto simp: index_last_def split: if_splits)

lemma slice_last_0_shape:
  "slice_last 0 n w = Inr r \<Longrightarrow> shape r = butlast (shape w) @ [min n (last (shape w))]"
  by (auto simp: slice_last_def Let_def split: if_splits)

lemma output_loop_first:
  "output_loop q_len w cv (i # rest) out0 = Inr out \<Longrightarrow> \<exists>wi. index_last (q_len + i - 1) w = Inr wi"
  by (auto split: if_splits sum.splits)

lemma cache_attention_Inr_q_len:
  assumes "cache_attention q_len hdim q ck cv m = Inr out" and "2 \<le> length ck"
  shows "q_len = shape (cv ! 0) ! (length (shape (cv ! 0)) - 2)"
proof -
  from assms(1) obtain w aw0 ao where
    sl: "slice_last 0 q_len (softmax_last w) = Inr aw0"
    and mm: "matmul aw0 (cv ! 0) = Inr ao"
    and ol: "output_loop q_len (softmax_last w) cv [1..<length ck] ao = Inr out"
    by (auto simp: cache_attention_def Let_def bindE_Inr_iff split: if_splits)
  have "[1..<length ck] = 1 # [Suc 1..<length ck]" using assms(2) by (intro upt_conv_Cons) simp
  then obtain wi where "index_last (q_len + 1 - 1) (softmax_last w) = Inr wi"
    using ol output_loop_first by metis
  then have lt: "q_len < last (shape (softmax_last w))" by (auto dest: index_last_Inr)
  have "last (shape aw0) = min q_len (last (shape (softmax_last w)))"
    using slice_last_0_shape[OF sl] by simp
  then have "last (shape aw0) = q_len" using lt by simp
  then show ?thesis using matmul_Inr_inner[OF mm] by simp
qed

text \<open>
  Claim C5. A call in cache-accumulation mode on a cache that already holds entries, whose
  step-0 key and value have sequence length \<open>S0\<close>, raises when the query sequence length of
  the call is not \<open>S0\<close>: whatever the module, the mask and the position ids are, a call
  that returns an output has \<open>q_len = S0\<close>. The product of the first \<open>q_len\<close> weight
  columns with the step-0 value, and the read of weight column \<open>q_len\<close> in the second
  loop, cannot both go through otherwise.
\<close>

theorem cache_step_length_mismatch_raises:
  assumes "shape hidden_states = [bsz, q_len, n]"
    and "keys \<noteq> []" and "vals \<noteq> []"
    and "shape (keys ! 0) = [B0, H0, S0, D0]" and "shape (vals ! 0) = [B0, H0, S0, D0]"
    and "q_len \<noteq> S0"
  shows "\<exists>e. fst (Qwen3Attention_forward a hidden_states (Some (keys, vals)) attention_mask position_ids) = Inl e"
proof (rule ccontr)
  assume "\<not> ?thesis"
  then obtain out where ok:
    "fst (Qwen3Attention_forward a hidden_states (Some (keys, vals)) attention_mask position_ids) = Inr out"
    by (metis sum.exhaust)
  then obtain b ql q0 k0 v0 where ph: "project_heads a hidden_states = Inr (b, ql, q0, k0, v0)"
    by (auto simp: Qwen3Attention_forward_def split: sum.splits)
  then have ql: "ql = q_len" using project_heads_shape[OF ph] assms(1) by simp
  from ok ph obtain q k v o1 where
    ca: "cache_attention ql (attn_head_dim a) q (keys @ [k]) (vals @ [v]) attention_mask = Inr o1"
    by (auto simp: Qwen3Attention_forward_def Let_def bindE_Inr_iff split: sum.splits option.splits)
  have "2 \<le> length (keys @ [k])" using assms(2) by (cases keys) auto
  from cache_attention_Inr_q_len[OF ca this]
  have "ql = shape ((vals @ [v]) ! 0) ! (length (shape ((vals @ [v]) ! 0)) - 2)" .
  moreover have "(vals @ [v]) ! 0 = vals ! 0" using assms(3) by (simp add: nth_append)
  ultimately have "ql = S0" using assms(5) by simp
  then show False using ql assms(6) by simp
qed

theorem cache_step_length_mismatch_raises_witness:
  "\<exists>e. fst (Qwen3Attention_forward example_attention (Tensor [1, 2, 4] (\<lambda>_. 1))
            (Some ([example_cache_entry], [example_cache_entry]))
            (Some (Tensor [1, 1, 2, 2] (\<lambda>_. Fin 0))) (Some (Tensor [1, 2] (\<lambda>idx. int (last idx))))) = Inl e"
proof -
  have h: "shape (Tensor [1, 2, 4] (\<lambda>_. 1 :: real)) = [1, 2, 4]"
    and c: "[example_cache_entry] \<noteq> []"
    and e: "shape ([example_cache_entry] ! 0) = [1, 1, 1, 2]" and n: "(2::nat) \<noteq> 1"
    by (simp_all add: example_cache_entry_def)
  show ?thesis
    by (rule cache_step_length_mismatch_raises [OF h c c e e n])
qed

end
